theory Spec2Isabelle
  imports Complex_Main "HOL-Library.Multiset"
begin

section \<open>JavaScript values\<close>

text \<open>
  The value \<open>JSON.parse\<close> returns. A number is given by the value it is written
  with; an object lists each of its properties once. \<open>undefined\<close> is \<open>None\<close> of
  \<open>json option\<close>.
\<close>

datatype json =
    JNull
  | JBool bool
  | JNum real
  | JStr string
  | JArr "json list"
  | JObj "(string \<times> json) list"

datatype error =
    TypeError
  | CastError
  | ValidationError
  | DuplicateKey
  | LimitError
  | PairNotFound string

text \<open>JavaScript truthiness of a value that came out of \<open>JSON.parse\<close> (no NaN there).\<close>

fun truthy :: "json option \<Rightarrow> bool" where
  "truthy None = False"
| "truthy (Some JNull) = False"
| "truthy (Some (JBool b)) = b"
| "truthy (Some (JNum r)) = (r \<noteq> 0)"
| "truthy (Some (JStr s)) = (s \<noteq> [])"
| "truthy (Some (JArr xs)) = True"
| "truthy (Some (JObj kvs)) = True"

text \<open>\<open>v || d\<close> with a default \<open>d\<close> that is a value.\<close>

fun js_or :: "json option \<Rightarrow> json \<Rightarrow> json" where
  "js_or None d = d"
| "js_or (Some v) d = (if truthy (Some v) then v else d)"

text \<open>
  \<open>v.k\<close> for a value \<open>v\<close> other than \<open>null\<close>, and a key that no prototype
  defines (every key read below is such a key): an object gives its own property,
  an array or a primitive gives \<open>undefined\<close>.
\<close>

fun js_get :: "json \<Rightarrow> string \<Rightarrow> json option" where
  "js_get (JObj kvs) k = map_of kvs k"
| "js_get v k = None"

text \<open>\<open>v?.k\<close>: \<open>undefined\<close> when \<open>v\<close> is \<open>undefined\<close> or \<open>null\<close>.\<close>

fun opt_chain :: "json option \<Rightarrow> string \<Rightarrow> json option" where
  "opt_chain None k = None"
| "opt_chain (Some JNull) k = None"
| "opt_chain (Some v) k = js_get v k"

text \<open>An object literal: a member whose value is \<open>undefined\<close> is dropped by \<open>JSON.stringify\<close>.\<close>

fun members :: "(string \<times> json option) list \<Rightarrow> (string \<times> json) list" where
  "members [] = []"
| "members ((k, None) # kvs) = members kvs"
| "members ((k, Some v) # kvs) = (k, v) # members kvs"

text \<open>Decimal digits of a number, for the template strings that print an exit code.\<close>

function show_nat :: "nat \<Rightarrow> string" where
  "show_nat n =
     (if n < 10 then [char_of (48 + n)]
      else show_nat (n div 10) @ [char_of (48 + n mod 10)])"
  by pat_completeness auto
termination
  by (relation "measure id") auto

declare show_nat.simps [simp del]

definition show_int :: "int \<Rightarrow> string" where
  "show_int i = (if i < 0 then CHR ''-'' # show_nat (nat (- i)) else show_nat (nat i))"

section \<open>The worker client\<close>

text \<open>
  One worker process is spawned per call. The promise is settled by the first of four
  events, and later \<open>resolve\<close> calls do nothing:
  the \<open>close\<close> event, with the exit code and with what \<open>JSON.parse\<close> makes of the
  accumulated standard output (\<open>None\<close> when it throws; a kill by signal closes with
  code \<open>null\<close>, which takes the branch of a code other than 0);
  the \<open>error\<close> event of the process; an exception of \<open>stdin.write\<close>;
  the timer.
\<close>

datatype proc_outcome =
    Closed int "json option"
  | ProcError string
  | WriteError string
  | Timeout

type_synonym worker = "json \<Rightarrow> proc_outcome"

record workers =
  evidence_judge :: worker
  contradiction_detector :: worker
  ml_synthesizer :: worker
  grok_explainer :: worker

datatype stage = Quality | Contradiction | Synthesis | Explanation

text \<open>
  A stage wrapper spawns its worker once, and writes the request to its standard input;
  next to its result it returns that spawn: the stage and the request.
\<close>

type_synonym spawn = "stage \<times> json"

definition failure :: "string \<Rightarrow> json" where
  "failure msg = JObj [(''success'', JBool False), (''error'', JStr msg)]"

text \<open>Evidence chunks, as \<open>Evidence.findOne(...).lean()\<close> returns them.\<close>

record chunk =
  chunkId :: real
  chunk_text :: string
  relevanceScore :: real

fun chunk_items :: "nat \<Rightarrow> chunk list \<Rightarrow> json list" where
  "chunk_items i [] = []"
| "chunk_items i (c # cs) =
     JObj [(''id'', js_or (Some (JNum (chunkId c))) (JNum (real i))),
           (''text'', js_or (Some (JStr (chunk_text c))) (JStr '''')),
           (''relevance'', js_or (Some (JNum (relevanceScore c))) (JNum (1/2)))]
     # chunk_items (Suc i) cs"

definition judgeData :: "chunk list \<Rightarrow> json" where
  "judgeData evidence =
     JObj [(''evidence_chunks'', JArr (chunk_items 0 evidence)),
           (''use_light_model'', JBool True)]"

fun evidenceJudgeResult :: "proc_outcome \<Rightarrow> json" where
  "evidenceJudgeResult (Closed code body) =
     (if code = 0 then (case body of Some result \<Rightarrow> result | None \<Rightarrow> failure ''Parse error'')
      else failure (''Exit code '' @ show_int code))"
| "evidenceJudgeResult (ProcError msg) = failure msg"
| "evidenceJudgeResult (WriteError msg) = failure msg"
| "evidenceJudgeResult Timeout = failure ''Timeout''"

definition runEvidenceJudge :: "workers \<Rightarrow> chunk list \<Rightarrow> json \<times> spawn list" where
  "runEvidenceJudge w evidence =
     (evidenceJudgeResult (evidence_judge w (judgeData evidence)),
      [(Quality, judgeData evidence)])"

definition detectorData :: "string \<Rightarrow> string \<Rightarrow> json" where
  "detectorData supportText opposeText =
     JObj [(''support_text'', JStr (take 500 supportText)),
           (''oppose_text'', JStr (take 500 opposeText)),
           (''use_light_model'', JBool True)]"

fun contradictionDetectorResult :: "proc_outcome \<Rightarrow> json" where
  "contradictionDetectorResult (Closed code body) =
     (if code = 0 then (case body of Some result \<Rightarrow> result | None \<Rightarrow> failure ''Parse error'')
      else failure (''Exit code '' @ show_int code))"
| "contradictionDetectorResult (ProcError msg) = failure msg"
| "contradictionDetectorResult (WriteError msg) = failure msg"
| "contradictionDetectorResult Timeout = failure ''Timeout''"

definition runContradictionDetector :: "workers \<Rightarrow> string \<Rightarrow> string \<Rightarrow> json \<times> spawn list" where
  "runContradictionDetector w supportText opposeText =
     (contradictionDetectorResult (contradiction_detector w (detectorData supportText opposeText)),
      [(Contradiction, detectorData supportText opposeText)])"

definition neutral_scores :: json where
  "neutral_scores =
     JObj [(''support'', JObj [(''strength'', JNum (1/2)), (''coverage'', JNum (1/2)),
                               (''consistency'', JNum (1/2))]),
           (''oppose'', JObj [(''strength'', JNum (1/2)), (''coverage'', JNum (1/2)),
                              (''consistency'', JNum (1/2))]),
           (''evidence'', JObj [(''quality_score'', JNum (1/2))]),
           (''contradictions'', JObj [(''contradiction_score'', JNum (1/2))])]"

definition fallback_reasoning :: "string \<Rightarrow> string" where
  "fallback_reasoning err =
     ''ML synthesis encountered an issue: '' @ err @
     ''. Both arguments have merit but a definitive verdict cannot be determined at this time.''"

definition getFallbackResult :: "string \<Rightarrow> json" where
  "getFallbackResult err =
     JObj [(''success'', JBool False),
           (''error'', JStr err),
           (''final_verdict'', JStr ''inconclusive''),
           (''confidence'', JNum (1/2)),
           (''reasoning'', JStr (fallback_reasoning err)),
           (''scores'', neutral_scores),
           (''key_evidence'', JArr []),
           (''fallback_used'', JBool True)]"

text \<open>
  The synthesis worker: on a code other than 0 the standard output is parsed all the
  same, and what it parses to is the result.
\<close>

fun mlSynthesisResult :: "proc_outcome \<Rightarrow> json" where
  "mlSynthesisResult (Closed code body) =
     (if code = 0 then (case body of Some result \<Rightarrow> result
                                   | None \<Rightarrow> getFallbackResult ''Parse error'')
      else (case body of Some errorResult \<Rightarrow> errorResult
                       | None \<Rightarrow> getFallbackResult (''Python exit code '' @ show_int code)))"
| "mlSynthesisResult (ProcError msg) = getFallbackResult (''Process error: '' @ msg)"
| "mlSynthesisResult (WriteError msg) = getFallbackResult (''Failed to write to Python: '' @ msg)"
| "mlSynthesisResult Timeout = getFallbackResult ''ML pipeline timeout (60s)''"

definition runMLSynthesisPipeline :: "workers \<Rightarrow> json \<Rightarrow> json \<times> spawn list" where
  "runMLSynthesisPipeline w data =
     (mlSynthesisResult (ml_synthesizer w data), [(Synthesis, data)])"

definition grokData :: "json \<Rightarrow> string \<Rightarrow> string \<Rightarrow> json" where
  "grokData mlResult supportReasoning opposeReasoning =
     JObj [(''ml_result'', mlResult),
           (''support_summary'', JStr (take 300 supportReasoning)),
           (''oppose_summary'', JStr (take 300 opposeReasoning)),
           (''use_free_model'', JBool True)]"

fun grokResult :: "proc_outcome \<Rightarrow> json" where
  "grokResult (Closed code body) =
     (if code = 0 then (case body of Some result \<Rightarrow> result
                                   | None \<Rightarrow> JObj [(''success'', JBool False)])
      else JObj [(''success'', JBool False)])"
| "grokResult (ProcError msg) = JObj [(''success'', JBool False)]"
| "grokResult (WriteError msg) = JObj [(''success'', JBool False)]"
| "grokResult Timeout = JObj [(''success'', JBool False)]"

definition generateGrokExplanation :: "workers \<Rightarrow> json \<Rightarrow> string \<Rightarrow> string \<Rightarrow> json \<times> spawn list" where
  "generateGrokExplanation w mlResult supportReasoning opposeReasoning =
     (grokResult (grok_explainer w (grokData mlResult supportReasoning opposeReasoning)),
      [(Explanation, grokData mlResult supportReasoning opposeReasoning)])"

text \<open>A worker call that did not end with exit code 0 and a body that parses.\<close>

fun stageFailed :: "proc_outcome \<Rightarrow> bool" where
  "stageFailed (Closed code body) = (code \<noteq> 0 \<or> body = None)"
| "stageFailed (ProcError msg) = True"
| "stageFailed (WriteError msg) = True"
| "stageFailed Timeout = True"

text \<open>
  A synthesis worker call after which the stage builds its fallback result: every
  outcome but a \<open>close\<close> event with a standard output that parses.
\<close>

fun synthesisFellBack :: "proc_outcome \<Rightarrow> bool" where
  "synthesisFellBack (Closed code b) = (b = None)"
| "synthesisFellBack (ProcError msg) = True"
| "synthesisFellBack (WriteError msg) = True"
| "synthesisFellBack Timeout = True"

section \<open>Agent responses and the pair resolver\<close>

datatype agent = Support | Oppose

datatype synthesis_status = Pending | Synthesized | Archived

text \<open>
  An AgentResponse document, with the members the synthesis pipeline reads. \<open>rid\<close>
  is \<open>_id\<close>; an ObjectId is written as its 24 lower-case hexadecimal digits.
\<close>

record response =
  rid :: string
  sessionId :: string
  evidenceId :: string
  agentType :: agent
  reasoning :: string
  subject :: string
  citations :: "json list"
  synthesisStatus :: synthesis_status
  synthesisPairId :: "string option"
  createdAt :: nat

text \<open>
  The driver's cast of a string to an ObjectId, which every query on \<open>_id\<close> or on
  \<open>synthesisPairId\<close> makes first: 24 hexadecimal digits, read without regard to
  case; any other string throws a CastError.
\<close>

definition lower_hex :: "char \<Rightarrow> char" where
  "lower_hex c =
     (if c = CHR ''A'' then CHR ''a'' else if c = CHR ''B'' then CHR ''b''
      else if c = CHR ''C'' then CHR ''c'' else if c = CHR ''D'' then CHR ''d''
      else if c = CHR ''E'' then CHR ''e'' else if c = CHR ''F'' then CHR ''f'' else c)"

definition castObjectId :: "string \<Rightarrow> string option" where
  "castObjectId s =
     (if length s = 24 \<and> list_all (\<lambda>c. c \<in> set ''0123456789abcdefABCDEF'') s
      then Some (map lower_hex s) else None)"

definition findById :: "response list \<Rightarrow> string \<Rightarrow> error + response option" where
  "findById rs i =
     (case castObjectId i of
        None \<Rightarrow> Inl CastError
      | Some oid \<Rightarrow> Inr (find (\<lambda>r. rid r = oid) rs))"

text \<open>\<open>s.split(c)\<close> and \<open>s.startsWith(p)\<close>.\<close>

fun split_on :: "char \<Rightarrow> string \<Rightarrow> string list" where
  "split_on c [] = [[]]"
| "split_on c (x # xs) =
     (if x = c then [] # split_on c xs
      else (case split_on c xs of [] \<Rightarrow> [[x]] | p # ps \<Rightarrow> (x # p) # ps))"

definition startsWith :: "string \<Rightarrow> string \<Rightarrow> bool" where
  "startsWith s p = (take (length p) s = p)"

text \<open>The pair of the first \<open>support\<close> and the first \<open>oppose\<close> response of a list.\<close>

definition supportAndOppose :: "response list \<Rightarrow> (response \<times> response) option" where
  "supportAndOppose rs =
     (case find (\<lambda>r. agentType r = Support) rs of
        None \<Rightarrow> None
      | Some support \<Rightarrow>
          (case find (\<lambda>r. agentType r = Oppose) rs of
             None \<Rightarrow> None
           | Some oppose \<Rightarrow> Some (support, oppose)))"

text \<open>
  A strategy ends in one of three ways: it throws (\<open>Inl\<close>), it finds nothing
  (\<open>Inr None\<close>), or it returns a pair.
\<close>

type_synonym attempt = "error + (response \<times> response) option"

text \<open>Strategy 1: the token is \<open>supportId_opposeId\<close>.\<close>

definition splitApplies :: "string \<Rightarrow> bool" where
  "splitApplies tok = (CHR ''_'' \<in> set tok \<and> \<not> startsWith tok ''pair_'')"

definition splitStrategy :: "response list \<Rightarrow> string \<Rightarrow> attempt" where
  "splitStrategy rs tok =
     (case split_on (CHR ''_'') tok of
        [supportId, opposeId] \<Rightarrow>
          (case findById rs supportId of
             Inl e \<Rightarrow> Inl e
           | Inr support \<Rightarrow>
               (case findById rs opposeId of
                  Inl e \<Rightarrow> Inl e
                | Inr oppose \<Rightarrow>
                    (case support of
                       None \<Rightarrow> Inr None
                     | Some s \<Rightarrow> (case oppose of None \<Rightarrow> Inr None | Some p \<Rightarrow> Inr (Some (s, p))))))
      | _ \<Rightarrow> Inr None)"

text \<open>
  Strategy 2: the old \<open>pair_...\<close> tokens. \<open>find({}).sort({createdAt: -1}).limit(10)\<close>:
  newest first, responses of one creation time in the order of the collection.
\<close>

fun insert_desc :: "response \<Rightarrow> response list \<Rightarrow> response list" where
  "insert_desc r [] = [r]"
| "insert_desc r (x # xs) =
     (if createdAt x \<le> createdAt r then r # x # xs else x # insert_desc r xs)"

definition recentResponses :: "response list \<Rightarrow> response list" where
  "recentResponses rs = take 10 (foldr insert_desc rs [])"

text \<open>
  \<open>bySession\<close> is a plain object. A session id that names a member of
  \<open>Object.prototype\<close> reads that member, which is truthy and has no \<open>push\<close>: the
  loop throws. Otherwise the response is appended to the list of its session.
\<close>

definition object_prototype_keys :: "string list" where
  "object_prototype_keys =
     [''constructor'', ''__defineGetter__'', ''__defineSetter__'', ''hasOwnProperty'',
      ''__lookupGetter__'', ''__lookupSetter__'', ''isPrototypeOf'', ''propertyIsEnumerable'',
      ''toString'', ''valueOf'', ''__proto__'', ''toLocaleString'']"

fun push_key :: "(string \<times> response list) list \<Rightarrow> string \<Rightarrow> response \<Rightarrow> (string \<times> response list) list" where
  "push_key [] k r = [(k, [r])]"
| "push_key ((k', g) # kgs) k r =
     (if k' = k then (k', g @ [r]) # kgs else (k', g) # push_key kgs k r)"

fun groupBySession :: "(string \<times> response list) list \<Rightarrow> response list \<Rightarrow> error + (string \<times> response list) list" where
  "groupBySession bySession [] = Inr bySession"
| "groupBySession bySession (r # rs) =
     (if sessionId r \<in> set object_prototype_keys then Inl TypeError
      else groupBySession (push_key bySession (sessionId r) r) rs)"

text \<open>The list that a grouping holds under a key, empty when the key is absent.\<close>

definition group_of :: "(string \<times> response list) list \<Rightarrow> string \<Rightarrow> response list" where
  "group_of acc k = (case map_of acc k of None \<Rightarrow> [] | Some g \<Rightarrow> g)"

text \<open>
  \<open>for (const sessionId in bySession)\<close> visits the keys that are array indices first,
  in ascending numeric order, and then the other keys in the order of their insertion.
\<close>

definition decimal_value :: "string \<Rightarrow> nat" where
  "decimal_value s = fold (\<lambda>c n. 10 * n + (of_char c - 48)) s 0"

definition array_index :: "string \<Rightarrow> nat option" where
  "array_index s =
     (if s \<noteq> [] \<and> list_all (\<lambda>c. c \<in> set ''0123456789'') s
         \<and> (length s = 1 \<or> take 1 s \<noteq> ''0'') \<and> decimal_value s < 4294967295
      then Some (decimal_value s) else None)"

definition index_key :: "string \<times> response list \<Rightarrow> nat" where
  "index_key kg = (case array_index (fst kg) of None \<Rightarrow> 0 | Some n \<Rightarrow> n)"

definition forin_order :: "(string \<times> response list) list \<Rightarrow> (string \<times> response list) list" where
  "forin_order kgs =
     sort_key index_key (filter (\<lambda>kg. array_index (fst kg) \<noteq> None) kgs)
     @ filter (\<lambda>kg. array_index (fst kg) = None) kgs"

fun firstCompletePair :: "(string \<times> response list) list \<Rightarrow> (response \<times> response) option" where
  "firstCompletePair [] = None"
| "firstCompletePair ((k, responses) # kgs) =
     (case supportAndOppose responses of
        Some p \<Rightarrow> Some p
      | None \<Rightarrow> firstCompletePair kgs)"

definition recentSessionStrategy :: "response list \<Rightarrow> attempt" where
  "recentSessionStrategy rs =
     (case groupBySession [] (recentResponses rs) of
        Inl e \<Rightarrow> Inl e
      | Inr bySession \<Rightarrow> Inr (firstCompletePair (forin_order bySession)))"

text \<open>Strategy 3: the responses whose \<open>synthesisPairId\<close> is the token.\<close>

definition pairIdStrategy :: "response list \<Rightarrow> string \<Rightarrow> attempt" where
  "pairIdStrategy rs tok =
     (case castObjectId tok of
        None \<Rightarrow> Inl CastError
      | Some oid \<Rightarrow>
          (let responses = filter (\<lambda>r. synthesisPairId r = Some oid) rs
           in if length responses = 2 then Inr (supportAndOppose responses) else Inr None))"

text \<open>Strategy 4: the token is the id of one response, whose \<open>synthesisPairId\<close> names the other.\<close>

definition counterpartStrategy :: "response list \<Rightarrow> string \<Rightarrow> attempt" where
  "counterpartStrategy rs tok =
     (case findById rs tok of
        Inl e \<Rightarrow> Inl e
      | Inr None \<Rightarrow> Inr None
      | Inr (Some mainResponse) \<Rightarrow>
          (case synthesisPairId mainResponse of
             None \<Rightarrow> Inr None
           | Some pid \<Rightarrow>
               (case findById rs pid of
                  Inl e \<Rightarrow> Inl e
                | Inr None \<Rightarrow> Inr None
                | Inr (Some counterpart) \<Rightarrow>
                    (if agentType mainResponse = Support
                     then Inr (Some (mainResponse, counterpart))
                     else Inr (Some (counterpart, mainResponse))))))"

text \<open>
  Each strategy runs inside its own \<open>try\<close>: one that threw or found nothing hands
  over to the next one. Strategies 1 and 2 run only on tokens of their form.
\<close>

fun found :: "attempt \<Rightarrow> (response \<times> response) option" where
  "found (Inl e) = None"
| "found (Inr p) = p"

definition findPairedResponses :: "response list \<Rightarrow> string \<Rightarrow> error + (response \<times> response)" where
  "findPairedResponses rs tok =
     (case (if splitApplies tok then found (splitStrategy rs tok) else None) of
        Some p \<Rightarrow> Inr p
      | None \<Rightarrow>
     (case (if startsWith tok ''pair_'' then found (recentSessionStrategy rs) else None) of
        Some p \<Rightarrow> Inr p
      | None \<Rightarrow>
     (case found (pairIdStrategy rs tok) of
        Some p \<Rightarrow> Inr p
      | None \<Rightarrow>
     (case found (counterpartStrategy rs tok) of
        Some p \<Rightarrow> Inr p
      | None \<Rightarrow> Inl (PairNotFound tok)))))"

section \<open>The store\<close>

datatype result_status = Processing | Completed | Failed

text \<open>
  A SynthesisResult document, with the paths that are written from the synthesis
  result. The processing times are left out. The sub-document \<open>mlScores\<close> and the
  array \<open>keyEvidence\<close> are written as the JSON they serialise to; \<open>mlScores\<close> is
  \<open>None\<close> when the document has no such member.
\<close>

record synthesisDoc =
  doc_synthesisPairId :: string
  doc_sessionId :: string
  doc_evidenceId :: string
  supportResponseId :: string
  opposeResponseId :: string
  verdict :: string
  confidence :: real
  doc_reasoning :: string
  mlScores :: "json option"
  keyEvidence :: json
  evidenceJudgeConfidence :: real
  contradictionDetectorConfidence :: real
  confidenceScorerConfidence :: real
  status :: result_status

record db =
  responses :: "response list"
  syntheses :: "synthesisDoc list"
  evidenceDocs :: "(string \<times> chunk list) list"

text \<open>
  The schema's cast of a value to the declared type of its path. A value of that type
  is kept; what the driver makes of a value of another type (a numeric string for a
  Number, a number for a String) is left open: it is a parameter, \<open>None\<close> for a
  CastError. Left open as well (\<open>ill_typed\<close>, by path) is what becomes of
  \<open>null\<close> and of a value of the wrong shape inside a sub-document: a CastError
  (\<open>None\<close>), no member, or a member.
\<close>

record casts =
  str_of :: "json \<Rightarrow> string option"
  num_of :: "json \<Rightarrow> real option"
  ill_typed :: "string \<Rightarrow> json \<Rightarrow> json option option"

fun castString :: "casts \<Rightarrow> json \<Rightarrow> string option" where
  "castString c (JStr s) = Some s"
| "castString c v = str_of c v"

fun castNumber :: "casts \<Rightarrow> json \<Rightarrow> real option" where
  "castNumber c (JNum r) = Some r"
| "castNumber c v = num_of c v"

definition verdict_enum :: "string list" where
  "verdict_enum = [''support'', ''oppose'', ''inconclusive'', ''mixed'']"

text \<open>
  The synthesis result after step 4.5 of \<open>synthesizePair\<close>: the value the worker stage
  returned and, when the explanation was assigned, the value assigned to its members
  \<open>grok_explanation\<close> and \<open>reasoning\<close>.
\<close>

record mlres =
  body :: json
  grok :: "json option option"

definition ml_get :: "mlres \<Rightarrow> string \<Rightarrow> json option" where
  "ml_get m k =
     (case grok m of
        None \<Rightarrow> js_get (body m) k
      | Some e \<Rightarrow> if k = ''grok_explanation'' \<or> k = ''reasoning'' then e else js_get (body m) k)"

text \<open>
  The members of a sub-document. The schemas are strict: a member that the schema
  does not declare is dropped. A member that is absent stays absent.
\<close>

definition openMember :: "casts \<Rightarrow> string \<Rightarrow> json \<Rightarrow> error + json option" where
  "openMember c path v =
     (case ill_typed c path v of None \<Rightarrow> Inl ValidationError | Some m \<Rightarrow> Inr m)"

text \<open>A path \<open>{type: Number, min: lo, max: hi}\<close>.\<close>

definition numberMember :: "casts \<Rightarrow> string \<Rightarrow> real \<Rightarrow> real \<Rightarrow> json option \<Rightarrow> error + json option" where
  "numberMember c path lo hi v =
     (case v of
        None \<Rightarrow> Inr None
      | Some x \<Rightarrow>
          if x = JNull \<or> x = JStr [] then openMember c path x
          else (case castNumber c x of
                  None \<Rightarrow> Inl ValidationError
                | Some r \<Rightarrow> if lo \<le> r \<and> r \<le> hi then Inr (Some (JNum r))
                            else Inl ValidationError))"

text \<open>A path of type String.\<close>

definition stringMember :: "casts \<Rightarrow> string \<Rightarrow> json option \<Rightarrow> error + json option" where
  "stringMember c path v =
     (case v of
        None \<Rightarrow> Inr None
      | Some x \<Rightarrow>
          if x = JNull then openMember c path x
          else (case castString c x of
                  None \<Rightarrow> Inl ValidationError
                | Some t \<Rightarrow> Inr (Some (JStr t))))"

text \<open>The members that are present, or the first error.\<close>

fun collect :: "(string \<times> (error + json option)) list \<Rightarrow> error + (string \<times> json) list" where
  "collect [] = Inr []"
| "collect ((k, Inl e) # kvs) = Inl e"
| "collect ((k, Inr v) # kvs) =
     (case collect kvs of Inl e \<Rightarrow> Inl e | Inr ms \<Rightarrow> Inr (members [(k, v)] @ ms))"

text \<open>
  A nested path \<open>{support: Number, oppose: Number}\<close>, both between 0 and 1. A
  nested object without members is not serialised (\<open>minimize\<close>).
\<close>

definition supportOpposeMember :: "casts \<Rightarrow> string \<Rightarrow> json option \<Rightarrow> error + json option" where
  "supportOpposeMember c path v =
     (case v of
        None \<Rightarrow> Inr None
      | Some (JObj kvs) \<Rightarrow>
          (case collect
                  [(''support'', numberMember c (path @ ''.support'') 0 1 (map_of kvs ''support'')),
                   (''oppose'', numberMember c (path @ ''.oppose'') 0 1 (map_of kvs ''oppose''))] of
             Inl e \<Rightarrow> Inl e
           | Inr ms \<Rightarrow> Inr (if ms = [] then None else Some (JObj ms)))
      | Some x \<Rightarrow> openMember c path x)"

text \<open>\<open>mlScores: mlScoreSchema\<close>: the six paths that \<open>mlScoreSchema\<close> declares.\<close>

definition castMlScores :: "casts \<Rightarrow> json \<Rightarrow> error + json option" where
  "castMlScores c raw =
     (case raw of
        JObj kvs \<Rightarrow>
          (case collect
                  [(''evidenceStrength'',
                      supportOpposeMember c ''mlScores.evidenceStrength'' (map_of kvs ''evidenceStrength'')),
                   (''citationQuality'',
                      supportOpposeMember c ''mlScores.citationQuality'' (map_of kvs ''citationQuality'')),
                   (''coverage'',
                      supportOpposeMember c ''mlScores.coverage'' (map_of kvs ''coverage'')),
                   (''contradictionScore'',
                      numberMember c ''mlScores.contradictionScore'' 0 1 (map_of kvs ''contradictionScore'')),
                   (''argumentConsistency'',
                      supportOpposeMember c ''mlScores.argumentConsistency''
                        (map_of kvs ''argumentConsistency'')),
                   (''evidenceDiversity'',
                      numberMember c ''mlScores.evidenceDiversity'' 0 1 (map_of kvs ''evidenceDiversity''))] of
             Inl e \<Rightarrow> Inl e
           | Inr ms \<Rightarrow> Inr (Some (JObj ms)))
      | x \<Rightarrow> openMember c ''mlScores'' x)"

text \<open>
  \<open>usedBy: [{type: String, enum: ['support', 'oppose']}]\<close>; an array path that is
  absent defaults to the empty array.
\<close>

definition usedByElement :: "casts \<Rightarrow> json \<Rightarrow> error + json option" where
  "usedByElement c x =
     (if x = JNull then openMember c ''keyEvidence.usedBy'' x
      else (case castString c x of
              None \<Rightarrow> Inl ValidationError
            | Some t \<Rightarrow> if t \<in> set [''support'', ''oppose''] then Inr (Some (JStr t))
                        else Inl ValidationError))"

fun elements :: "(json \<Rightarrow> error + json option) \<Rightarrow> json list \<Rightarrow> error + json list" where
  "elements f [] = Inr []"
| "elements f (x # xs) =
     (case f x of
        Inl e \<Rightarrow> Inl e
      | Inr m \<Rightarrow>
          (case elements f xs of
             Inl e \<Rightarrow> Inl e
           | Inr ys \<Rightarrow> Inr (case m of None \<Rightarrow> ys | Some y \<Rightarrow> y # ys)))"

definition usedByMember :: "casts \<Rightarrow> json option \<Rightarrow> error + json option" where
  "usedByMember c v =
     (case v of
        None \<Rightarrow> Inr (Some (JArr []))
      | Some (JArr xs) \<Rightarrow>
          (case elements (usedByElement c) xs of
             Inl e \<Rightarrow> Inl e
           | Inr ys \<Rightarrow> Inr (Some (JArr ys)))
      | Some x \<Rightarrow> openMember c ''keyEvidence.usedBy'' x)"

text \<open>\<open>keyEvidence: [keyEvidenceSchema]\<close>.\<close>

definition keyEvidenceItem :: "casts \<Rightarrow> json \<Rightarrow> error + json option" where
  "keyEvidenceItem c x =
     (case x of
        JObj kvs \<Rightarrow>
          (case collect
                  [(''chunkId'', stringMember c ''keyEvidence.chunkId'' (map_of kvs ''chunkId'')),
                   (''text'', stringMember c ''keyEvidence.text'' (map_of kvs ''text'')),
                   (''weight'', numberMember c ''keyEvidence.weight'' 0 1 (map_of kvs ''weight'')),
                   (''usedBy'', usedByMember c (map_of kvs ''usedBy'')),
                   (''verdictImpact'',
                      numberMember c ''keyEvidence.verdictImpact'' (- 1) 1 (map_of kvs ''verdictImpact''))] of
             Inl e \<Rightarrow> Inl e
           | Inr ms \<Rightarrow> Inr (Some (JObj ms)))
      | y \<Rightarrow> openMember c ''keyEvidence.item'' y)"

definition castKeyEvidence :: "casts \<Rightarrow> json \<Rightarrow> error + json" where
  "castKeyEvidence c raw =
     (case raw of
        JArr xs \<Rightarrow>
          (case elements (keyEvidenceItem c) xs of
             Inl e \<Rightarrow> Inl e
           | Inr ys \<Rightarrow> Inr (JArr ys))
      | x \<Rightarrow>
          (case ill_typed c ''keyEvidence'' x of
             None \<Rightarrow> Inl ValidationError
           | Some None \<Rightarrow> Inr (JArr [])
           | Some (Some y) \<Rightarrow> Inr y))"

text \<open>
  \<open>new SynthesisResult({...})\<close> with the schema's casts and validators: \<open>required\<close>
  (a String must not be empty), \<open>enum\<close>, \<open>min\<close> and \<open>max\<close>. A cast that fails is
  reported by \<open>save\<close>, as a failed validator is. The result is the document in
  memory.
\<close>

definition newSynthesisResult ::
  "casts \<Rightarrow> string \<Rightarrow> string \<Rightarrow> string \<Rightarrow> string \<Rightarrow> string \<Rightarrow> mlres \<Rightarrow> error + synthesisDoc" where
  "newSynthesisResult c pairId sid eid supportId opposeId mlResult =
     (case castString c (js_or (ml_get mlResult ''final_verdict'') (JStr ''inconclusive'')) of
        None \<Rightarrow> Inl ValidationError
      | Some v \<Rightarrow>
     (case castNumber c (js_or (ml_get mlResult ''confidence'') (JNum (1/2))) of
        None \<Rightarrow> Inl ValidationError
      | Some conf \<Rightarrow>
     (case castString c (js_or (ml_get mlResult ''reasoning'') (JStr ''No reasoning provided'')) of
        None \<Rightarrow> Inl ValidationError
      | Some rsn \<Rightarrow>
     (case castMlScores c (js_or (ml_get mlResult ''scores'') (JObj [])) of
        Inl e \<Rightarrow> Inl ValidationError
      | Inr scores \<Rightarrow>
     (case castKeyEvidence c (js_or (ml_get mlResult ''key_evidence'') (JArr [])) of
        Inl e \<Rightarrow> Inl ValidationError
      | Inr evidence \<Rightarrow>
     (case castNumber c (js_or (opt_chain (opt_chain (ml_get mlResult ''scores'') ''evidence'')
                                  ''quality_score'') (JNum (1/2))) of
        None \<Rightarrow> Inl ValidationError
      | Some ejc \<Rightarrow>
     (case castNumber c (js_or (opt_chain (opt_chain (ml_get mlResult ''scores'') ''contradictions'')
                                  ''contradiction_score'') (JNum (1/2))) of
        None \<Rightarrow> Inl ValidationError
      | Some cdc \<Rightarrow>
          (if pairId \<noteq> [] \<and> sid \<noteq> [] \<and> eid \<noteq> [] \<and> v \<in> set verdict_enum
              \<and> 0 \<le> conf \<and> conf \<le> 1 \<and> rsn \<noteq> []
           then Inr \<lparr>doc_synthesisPairId = pairId, doc_sessionId = sid, doc_evidenceId = eid,
                     supportResponseId = supportId, opposeResponseId = opposeId,
                     verdict = v, confidence = conf, doc_reasoning = rsn,
                     mlScores = scores,
                     keyEvidence = evidence,
                     evidenceJudgeConfidence = ejc,
                     contradictionDetectorConfidence = cdc,
                     confidenceScorerConfidence = conf,
                     status = Completed\<rparr>
           else Inl ValidationError))))))))"

text \<open>
  What the collection holds of a document: a sub-document without members is not
  written (\<open>minimize\<close>), so the document that is read back has no \<open>mlScores\<close>.
\<close>

definition minimized :: "synthesisDoc \<Rightarrow> synthesisDoc" where
  "minimized d = (if mlScores d = Some (JObj []) then d\<lparr>mlScores := None\<rparr> else d)"

text \<open>
  \<open>_saveSynthesisResult\<close>: the document is validated and inserted; the unique
  index on \<open>synthesisPairId\<close> refuses a second document of one pair. \<open>save\<close>
  resolves to the document in memory.
\<close>

definition saveSynthesisResult ::
  "casts \<Rightarrow> db \<Rightarrow> string \<Rightarrow> string \<Rightarrow> string \<Rightarrow> string \<Rightarrow> string \<Rightarrow> mlres \<Rightarrow> error + synthesisDoc \<times> db" where
  "saveSynthesisResult c st pairId sid eid supportId opposeId mlResult =
     (case newSynthesisResult c pairId sid eid supportId opposeId mlResult of
        Inl e \<Rightarrow> Inl e
      | Inr d \<Rightarrow>
          (if list_ex (\<lambda>x. doc_synthesisPairId x = pairId) (syntheses st) then Inl DuplicateKey
           else Inr (d, st\<lparr>syntheses := syntheses st @ [minimized d]\<rparr>)))"

definition getVerdictColor :: "synthesisDoc \<Rightarrow> string" where
  "getVerdictColor d =
     (if verdict d = ''support'' then ''#10b981''
      else if verdict d = ''oppose'' then ''#ef4444''
      else if verdict d = ''inconclusive'' then ''#6b7280''
      else if verdict d = ''mixed'' then ''#f59e0b''
      else ''#6b7280'')"

text \<open>
  \<open>formatForFrontend\<close>, without the members that print a number
  (\<open>formattedVerdict\<close>, \<open>confidencePercent\<close>) and without \<open>id\<close>, \<open>createdAt\<close>
  and the processing time. A member \<open>scores\<close> that is \<open>undefined\<close> is not
  in the response.
\<close>

record frontend =
  fe_synthesisPairId :: string
  fe_verdict :: string
  fe_confidence :: real
  fe_reasoning :: string
  fe_verdictColor :: string
  fe_scores :: "json option"
  fe_keyEvidence :: json
  fe_models :: "real \<times> real \<times> real"

definition formatForFrontend :: "synthesisDoc \<Rightarrow> frontend" where
  "formatForFrontend d =
     \<lparr>fe_synthesisPairId = doc_synthesisPairId d, fe_verdict = verdict d,
      fe_confidence = confidence d, fe_reasoning = doc_reasoning d,
      fe_verdictColor = getVerdictColor d, fe_scores = mlScores d,
      fe_keyEvidence = keyEvidence d,
      fe_models = (evidenceJudgeConfidence d, contradictionDetectorConfidence d,
                   confidenceScorerConfidence d)\<rparr>"

definition getSynthesisResult :: "db \<Rightarrow> string \<Rightarrow> synthesisDoc option" where
  "getSynthesisResult st pairId = find (\<lambda>d. doc_synthesisPairId d = pairId) (syntheses st)"

definition getEvidenceForSession :: "db \<Rightarrow> string \<Rightarrow> chunk list" where
  "getEvidenceForSession st sid =
     (case map_of (evidenceDocs st) sid of None \<Rightarrow> [] | Some chunks \<Rightarrow> chunks)"

text \<open>\<open>AgentResponse.updateMany({_id: {$in: ids}}, {$set: {synthesisStatus: 'synthesized'}})\<close>.\<close>

definition markSynthesized :: "string list \<Rightarrow> response list \<Rightarrow> response list" where
  "markSynthesized ids rs =
     map (\<lambda>r. if rid r \<in> set ids then r\<lparr>synthesisStatus := Synthesized\<rparr> else r) rs"

section \<open>The synthesis pipeline\<close>

definition responseData :: "response \<Rightarrow> json" where
  "responseData r =
     JObj [(''reasoning'', JStr (reasoning r)),
           (''citations'', JArr (citations r)),
           (''responseId'', JStr (rid r)),
           (''subject'', JStr (subject r)),
           (''geminiResponse'', JObj [(''reasoning'', JStr (reasoning r))])]"

definition prepareMLPipelineData :: "response \<Rightarrow> response \<Rightarrow> chunk list \<Rightarrow> (string \<times> json) list" where
  "prepareMLPipelineData supportResponse opposeResponse evidence =
     [(''synthesisPairId'',
         (case synthesisPairId supportResponse of
            None \<Rightarrow> JStr ''unknown''
          | Some p \<Rightarrow> js_or (Some (JStr p)) (JStr ''unknown''))),
      (''sessionId'', JStr (sessionId supportResponse)),
      (''support'', responseData supportResponse),
      (''oppose'', responseData opposeResponse),
      (''evidence'', JArr (chunk_items 0 evidence))]"

definition evidence_judgment_fallback :: json where
  "evidence_judgment_fallback =
     JObj [(''overall'', JObj [(''support'', JNum (1/2)), (''oppose'', JNum (1/2))]),
           (''dimension_scores'',
              JObj [(''factual_grounding'', JNum (1/2)), (''logical_coherence'', JNum (1/2)),
                    (''evidence_integration'', JNum (1/2)), (''argument_strength'', JNum (1/2)),
                    (''objectivity'', JNum (1/2))]),
           (''winner'', JStr ''neutral''),
           (''confidence'', JNum (1/2))]"

definition contradiction_analysis_fallback :: json where
  "contradiction_analysis_fallback =
     JObj [(''contradiction_score'', JNum (3/10)),
           (''similarity_score'', JNum (1/2)),
           (''entailment_score'', JNum (3/10)),
           (''neutral_score'', JNum (4/10)),
           (''strong_contradictions'', JArr []),
           (''is_contradictory'', JBool False),
           (''fallback_used'', JBool True)]"

text \<open>
  Step 3.7: \<open>x.success ? x.member : fallback\<close>. Reading \<open>success\<close> of \<open>null\<close>
  throws a TypeError.
\<close>

definition selectEvidenceJudgment :: "json \<Rightarrow> error + json option" where
  "selectEvidenceJudgment evidenceJudgment =
     (if evidenceJudgment = JNull then Inl TypeError
      else if truthy (js_get evidenceJudgment ''success'')
      then Inr (js_get evidenceJudgment ''evidence_judgment'')
      else Inr (Some evidence_judgment_fallback))"

definition selectContradictionAnalysis :: "json \<Rightarrow> error + json option" where
  "selectContradictionAnalysis contradictionAnalysis =
     (if contradictionAnalysis = JNull then Inl TypeError
      else if truthy (js_get contradictionAnalysis ''success'')
      then Inr (js_get contradictionAnalysis ''contradiction_analysis'')
      else Inr (Some contradiction_analysis_fallback))"

text \<open>
  Step 4.5: \<open>if (grokExplanation && grokExplanation.success)\<close> the explanation is
  assigned to two members of the synthesis result. The module is an ES module, so
  the code is strict: the assignment to a member of a primitive throws a TypeError.
\<close>

definition applyGrokExplanation :: "json \<Rightarrow> json \<Rightarrow> error + mlres" where
  "applyGrokExplanation mlResult grokExplanation =
     (if truthy (Some grokExplanation) \<and> truthy (js_get grokExplanation ''success'')
      then (case mlResult of
              JObj kvs \<Rightarrow> Inr \<lparr>body = mlResult, grok = Some (js_get grokExplanation ''explanation'')\<rparr>
            | JArr xs \<Rightarrow> Inr \<lparr>body = mlResult, grok = Some (js_get grokExplanation ''explanation'')\<rparr>
            | _ \<Rightarrow> Inl TypeError)
      else Inr \<lparr>body = mlResult, grok = None\<rparr>)"

text \<open>
  Steps 2 to 4 of \<open>synthesizePair\<close>: the evidence of the session, the quality and
  the contradiction stage, their results or fallbacks injected into the request, and the
  synthesis stage. Reading \<open>success\<close> of a synthesis result \<open>null\<close> throws.
\<close>

definition synthesisStage :: "workers \<Rightarrow> db \<Rightarrow> response \<Rightarrow> response \<Rightarrow> (error + json) \<times> spawn list" where
  "synthesisStage w st support oppose =
     (let evidence = getEvidenceForSession st (sessionId support);
          mlData = prepareMLPipelineData support oppose evidence;
          (evidenceJudgment, spawned1) = runEvidenceJudge w evidence;
          (contradictionAnalysis, spawned2) =
             runContradictionDetector w (reasoning support) (reasoning oppose)
      in
     (case selectEvidenceJudgment evidenceJudgment of
        Inl e \<Rightarrow> (Inl e, spawned1 @ spawned2)
      | Inr ej \<Rightarrow>
     (case selectContradictionAnalysis contradictionAnalysis of
        Inl e \<Rightarrow> (Inl e, spawned1 @ spawned2)
      | Inr ca \<Rightarrow>
     (let (mlResult, spawned3) = runMLSynthesisPipeline w
            (JObj (mlData @ members [(''evidence_judgment'', ej), (''contradiction_analysis'', ca)]))
      in if mlResult = JNull then (Inl TypeError, spawned1 @ spawned2 @ spawned3)
         else (Inr mlResult, spawned1 @ spawned2 @ spawned3)))))"

text \<open>
  \<open>synthesizePair\<close> returns what it resolves to or the error it throws, the store
  it leaves, and the workers it has spawned, in order.
\<close>

definition synthesizePair :: "casts \<Rightarrow> workers \<Rightarrow> db \<Rightarrow> string \<Rightarrow> (error + frontend) \<times> db \<times> spawn list" where
  "synthesizePair c w st synthesisPairIdInput =
     (case findPairedResponses (responses st) synthesisPairIdInput of
        Inl e \<Rightarrow> (Inl e, st, [])
      | Inr (support, oppose) \<Rightarrow>
     (case synthesisStage w st support oppose of
        (Inl e, spawned) \<Rightarrow> (Inl e, st, spawned)
      | (Inr mlResult, spawned) \<Rightarrow>
     (let (grokExplanation, spawned4) =
            generateGrokExplanation w mlResult (reasoning support) (reasoning oppose)
      in
     (case applyGrokExplanation mlResult grokExplanation of
        Inl e \<Rightarrow> (Inl e, st, spawned @ spawned4)
      | Inr m \<Rightarrow>
     (case saveSynthesisResult c st synthesisPairIdInput (sessionId support) (evidenceId support)
             (rid support) (rid oppose) m of
        Inl e \<Rightarrow> (Inl e, st, spawned @ spawned4)
      | Inr (d, st') \<Rightarrow>
          (Inr (formatForFrontend d),
           st'\<lparr>responses := markSynthesized [rid support, rid oppose] (responses st')\<rparr>,
           spawned @ spawned4))))))"

section \<open>The controller\<close>

datatype http = BadRequest | Cached frontend | Fresh frontend | ServerError error

definition runSynthesis :: "casts \<Rightarrow> workers \<Rightarrow> db \<Rightarrow> string \<Rightarrow> http \<times> db \<times> spawn list" where
  "runSynthesis c w st pairId =
     (if pairId = [] then (BadRequest, st, [])
      else
        (case find (\<lambda>d. doc_synthesisPairId d = pairId) (syntheses st) of
           Some existingResult \<Rightarrow> (Cached (formatForFrontend existingResult), st, [])
         | None \<Rightarrow>
             (case synthesizePair c w st pairId of
                (Inl e, st', spawned) \<Rightarrow> (ServerError e, st', spawned)
              | (Inr r, st', spawned) \<Rightarrow> (Fresh r, st', spawned))))"

fun result_content :: "http \<Rightarrow> frontend option" where
  "result_content (Cached r) = Some r"
| "result_content (Fresh r) = Some r"
| "result_content BadRequest = None"
| "result_content (ServerError e) = None"

section \<open>Pairs that wait for synthesis\<close>

text \<open>
  The aggregation of \<open>findPairsForSynthesis\<close>, stage by stage. Groups come in the
  order in which their key first appears; rows of one \<open>createdAt\<close> keep that order.
\<close>

record pair_row =
  pairId :: string
  row_sessionId :: string
  row_subject :: string
  row_createdAt :: nat
  supportResponse :: "response option"
  opposeResponse :: "response option"

definition pendingWithPairId :: "response list \<Rightarrow> response list" where
  "pendingWithPairId rs =
     filter (\<lambda>r. synthesisPairId r \<noteq> None \<and> synthesisStatus r = Pending) rs"

fun groupByPairId :: "(string \<times> response list) list \<Rightarrow> response list \<Rightarrow> (string \<times> response list) list" where
  "groupByPairId acc [] = acc"
| "groupByPairId acc (r # rs) =
     (case synthesisPairId r of
        None \<Rightarrow> groupByPairId acc rs
      | Some k \<Rightarrow> groupByPairId (push_key acc k r) rs)"

fun projectGroup :: "string \<times> response list \<Rightarrow> pair_row list" where
  "projectGroup (k, []) = []"
| "projectGroup (k, r # rs) =
     [\<lparr>pairId = k, row_sessionId = sessionId r, row_subject = subject r,
       row_createdAt = fold (\<lambda>x m. max (createdAt x) m) rs (createdAt r),
       supportResponse = find (\<lambda>x. agentType x = Support) (r # rs),
       opposeResponse = find (\<lambda>x. agentType x = Oppose) (r # rs)\<rparr>]"

fun insert_row :: "pair_row \<Rightarrow> pair_row list \<Rightarrow> pair_row list" where
  "insert_row p [] = [p]"
| "insert_row p (x # xs) =
     (if row_createdAt x \<le> row_createdAt p then p # x # xs else x # insert_row p xs)"

definition pendingPairRows :: "response list \<Rightarrow> pair_row list" where
  "pendingPairRows rs =
     foldr insert_row
       (concat (map projectGroup
          (filter (\<lambda>kg. length (snd kg) = 2) (groupByPairId [] (pendingWithPairId rs))))) []"

record pair_summary =
  sum_pairId :: string
  sum_sessionId :: string
  sum_subject :: string
  sum_createdAt :: nat
  readyForSynthesis :: bool

text \<open>
  \<open>parseInt(req.query.limit) || 20\<close>: the query gives an integer or NaN
  (\<open>None\<close>). A negative \<open>$limit\<close> is refused by the database.
\<close>

definition findPairsForSynthesis :: "db \<Rightarrow> int option \<Rightarrow> error + pair_summary list" where
  "findPairsForSynthesis st q =
     (let limit = (case q of None \<Rightarrow> 20 | Some n \<Rightarrow> if n = 0 then 20 else n)
      in if limit < 0 then Inl LimitError
         else Inr (map (\<lambda>pair. \<lparr>sum_pairId = pairId pair, sum_sessionId = row_sessionId pair,
                                 sum_subject = row_subject pair, sum_createdAt = row_createdAt pair,
                                 readyForSynthesis = True\<rparr>)
                     (take (nat limit) (pendingPairRows (responses st)))))"

section \<open>Saving a pair of responses\<close>

text \<open>
  \<open>saveGeminiResponse\<close>: a new document with a new \<open>_id\<close>, the defaults
  of the schema, and its \<open>required\<close> validators. \<open>newId\<close> is the ObjectId the
  driver generates and \<open>now\<close> the time; the citations are what
  \<open>extractCitations\<close> returns. The evidence context and statistics that are stored
  along are left out.
\<close>

definition saveGeminiResponse ::
  "response list \<Rightarrow> string \<Rightarrow> nat \<Rightarrow> string \<Rightarrow> string \<Rightarrow> agent \<Rightarrow> string \<Rightarrow> json list \<Rightarrow> string
     \<Rightarrow> error + response \<times> response list" where
  "saveGeminiResponse rs newId now sid eid agent rsn cites subj =
     (if sid = [] \<or> eid = [] \<or> rsn = [] \<or> subj = [] then Inl ValidationError
      else if list_ex (\<lambda>r. rid r = newId) rs then Inl DuplicateKey
      else (let responseDoc =
                  \<lparr>rid = newId, sessionId = sid, evidenceId = eid, agentType = agent,
                   reasoning = rsn, subject = subj, citations = cites,
                   synthesisStatus = Pending, synthesisPairId = None, createdAt = now\<rparr>
            in Inr (responseDoc, rs @ [responseDoc])))"

definition updateById :: "response \<Rightarrow> response list \<Rightarrow> response list" where
  "updateById d rs = map (\<lambda>r. if rid r = rid d then d else r) rs"

definition saveBothGeminiResponses ::
  "response list \<Rightarrow> string \<Rightarrow> string \<Rightarrow> nat \<Rightarrow> nat \<Rightarrow> string \<Rightarrow> string \<Rightarrow> string \<Rightarrow> json list
     \<Rightarrow> string \<Rightarrow> json list \<Rightarrow> string \<Rightarrow> error + (response \<times> response) \<times> response list" where
  "saveBothGeminiResponses rs supportId opposeId now1 now2 sid eid
       supportReasoning supportCitations opposeReasoning opposeCitations subj =
     (case saveGeminiResponse rs supportId now1 sid eid Support supportReasoning supportCitations subj of
        Inl e \<Rightarrow> Inl e
      | Inr (supportSaved, rs1) \<Rightarrow>
     (case saveGeminiResponse rs1 opposeId now2 sid eid Oppose opposeReasoning opposeCitations subj of
        Inl e \<Rightarrow> Inl e
      | Inr (opposeSaved, rs2) \<Rightarrow>
          (let supportLinked = supportSaved\<lparr>synthesisPairId := Some (rid opposeSaved)\<rparr>;
               opposeLinked = opposeSaved\<lparr>synthesisPairId := Some (rid supportSaved)\<rparr>
           in Inr ((supportLinked, opposeLinked),
                   updateById opposeLinked (updateById supportLinked rs2)))))"

section \<open>The stores the system can reach\<close>

text \<open>
  The collection of synthesis results starts empty and is written by \<open>runSynthesis\<close>
  only; responses and evidence are written by other services as well.
\<close>

inductive reachable :: "db \<Rightarrow> bool" where
  start: "syntheses st = [] \<Longrightarrow> reachable st"
| run: "reachable st \<Longrightarrow> runSynthesis c w st tok = (resp, st', spawned) \<Longrightarrow> reachable st'"
| others: "reachable st \<Longrightarrow> reachable (st\<lparr>responses := rs, evidenceDocs := ev\<rparr>)"

section \<open>Example data\<close>

definition example_support :: response where
  "example_support =
     \<lparr>rid = ''aaaaaaaaaaaaaaaaaaaaaaa1'', sessionId = ''s1'', evidenceId = ''e1'',
      agentType = Support, reasoning = ''yes'', subject = ''topic'', citations = [],
      synthesisStatus = Pending, synthesisPairId = Some ''aaaaaaaaaaaaaaaaaaaaaaa2'',
      createdAt = 1\<rparr>"

definition example_oppose :: response where
  "example_oppose =
     \<lparr>rid = ''aaaaaaaaaaaaaaaaaaaaaaa2'', sessionId = ''s1'', evidenceId = ''e1'',
      agentType = Oppose, reasoning = ''no'', subject = ''topic'', citations = [],
      synthesisStatus = Pending, synthesisPairId = Some ''aaaaaaaaaaaaaaaaaaaaaaa1'',
      createdAt = 2\<rparr>"

definition example_db :: db where
  "example_db =
     \<lparr>responses = [example_support, example_oppose], syntheses = [],
      evidenceDocs = [(''s1'', [\<lparr>chunkId = 1, chunk_text = ''fact'', relevanceScore = 1/2\<rparr>])]\<rparr>"

definition example_token :: string where
  "example_token = ''aaaaaaaaaaaaaaaaaaaaaaa1_aaaaaaaaaaaaaaaaaaaaaaa2''"

definition no_casts :: casts where
  "no_casts = \<lparr>str_of = (\<lambda>v. None), num_of = (\<lambda>v. None), ill_typed = (\<lambda>path v. None)\<rparr>"

definition failing_workers :: workers where
  "failing_workers =
     \<lparr>evidence_judge = (\<lambda>x. Timeout),
      contradiction_detector = (\<lambda>x. Closed 1 None),
      ml_synthesizer = (\<lambda>x. Closed 0 None),
      grok_explainer = (\<lambda>x. ProcError ''spawn python3 ENOENT'')\<rparr>"

definition own_output :: json where
  "own_output =
     JObj [(''success'', JBool False), (''final_verdict'', JStr ''support''),
           (''confidence'', JNum (9/10)), (''reasoning'', JStr ''partial'')]"


text \<open>The document of the run whose workers all fail: in memory, and as it is stored.\<close>

definition example_memory_doc :: synthesisDoc where
  "example_memory_doc =
     \<lparr>doc_synthesisPairId = example_token, doc_sessionId = ''s1'', doc_evidenceId = ''e1'',
      supportResponseId = ''aaaaaaaaaaaaaaaaaaaaaaa1'',
      opposeResponseId = ''aaaaaaaaaaaaaaaaaaaaaaa2'',
      verdict = ''inconclusive'', confidence = 1/2,
      doc_reasoning = fallback_reasoning ''Parse error'',
      mlScores = Some (JObj []), keyEvidence = JArr [],
      evidenceJudgeConfidence = 1/2, contradictionDetectorConfidence = 1/2,
      confidenceScorerConfidence = 1/2, status = Completed\<rparr>"

definition example_doc :: synthesisDoc where
  "example_doc = example_memory_doc\<lparr>mlScores := None\<rparr>"

definition example_db_after :: db where
  "example_db_after =
     \<lparr>responses = [example_support\<lparr>synthesisStatus := Synthesized\<rparr>,
                   example_oppose\<lparr>synthesisStatus := Synthesized\<rparr>],
      syntheses = [example_doc],
      evidenceDocs = [(''s1'', [\<lparr>chunkId = 1, chunk_text = ''fact'', relevanceScore = 1/2\<rparr>])]\<rparr>"






definition shared_key :: string where
  "shared_key = ''cccccccccccccccccccccc01''"

definition keyed :: "string \<Rightarrow> agent \<Rightarrow> string \<Rightarrow> nat \<Rightarrow> response" where
  "keyed i agent k t =
     \<lparr>rid = i, sessionId = ''s3'', evidenceId = ''e3'', agentType = agent,
      reasoning = ''text'', subject = ''topic'', citations = [],
      synthesisStatus = Pending, synthesisPairId = Some k, createdAt = t\<rparr>"

definition second_support :: response where
  "second_support =
     \<lparr>rid = ''aaaaaaaaaaaaaaaaaaaaaaa3'', sessionId = ''s1'', evidenceId = ''e1'',
      agentType = Support, reasoning = ''yes again'', subject = ''topic'', citations = [],
      synthesisStatus = Pending, synthesisPairId = None, createdAt = 3\<rparr>"

definition crowded_responses :: "response list" where
  "crowded_responses = [example_support, example_oppose, second_support]"

definition legacy_token :: string where
  "legacy_token = ''pair_1700000000000_x7k2''"

text \<open>
  One \<open>support\<close> and one \<open>oppose\<close> response in a session called
  \<open>constructor\<close>; and two sessions with numbers for names, the newer pair in
  session \<open>10\<close>, the older pair in session \<open>9\<close>.
\<close>

definition constructor_responses :: "response list" where
  "constructor_responses =
     [example_support\<lparr>sessionId := ''constructor''\<rparr>,
      example_oppose\<lparr>sessionId := ''constructor''\<rparr>]"

definition numbered_responses :: "response list" where
  "numbered_responses =
     [keyed ''bbbbbbbbbbbbbbbbbbbbbb11'' Support ''cccccccccccccccccccccc11'' 5\<lparr>sessionId := ''9''\<rparr>,
      keyed ''bbbbbbbbbbbbbbbbbbbbbb12'' Oppose ''cccccccccccccccccccccc12'' 6\<lparr>sessionId := ''9''\<rparr>,
      keyed ''bbbbbbbbbbbbbbbbbbbbbb13'' Support ''cccccccccccccccccccccc13'' 7\<lparr>sessionId := ''10''\<rparr>,
      keyed ''bbbbbbbbbbbbbbbbbbbbbb14'' Oppose ''cccccccccccccccccccccc14'' 8\<lparr>sessionId := ''10''\<rparr>]"

definition other_support :: response where
  "other_support =
     \<lparr>rid = ''aaaaaaaaaaaaaaaaaaaaaaa4'', sessionId = ''s2'', evidenceId = ''e2'',
      agentType = Support, reasoning = ''indeed'', subject = ''other topic'', citations = [],
      synthesisStatus = Pending, synthesisPairId = None, createdAt = 4\<rparr>"

definition two_supports_token :: string where
  "two_supports_token = ''aaaaaaaaaaaaaaaaaaaaaaa1_aaaaaaaaaaaaaaaaaaaaaaa4''"

definition keyed_db :: db where
  "keyed_db =
     \<lparr>responses =
        [keyed ''bbbbbbbbbbbbbbbbbbbbbb01'' Support shared_key 5,
         keyed ''bbbbbbbbbbbbbbbbbbbbbb02'' Oppose shared_key 6,
         keyed ''bbbbbbbbbbbbbbbbbbbbbb03'' Support ''cccccccccccccccccccccc02'' 7,
         keyed ''bbbbbbbbbbbbbbbbbbbbbb04'' Support ''cccccccccccccccccccccc03'' 8,
         keyed ''bbbbbbbbbbbbbbbbbbbbbb05'' Oppose ''cccccccccccccccccccccc03'' 9,
         keyed ''bbbbbbbbbbbbbbbbbbbbbb06'' Oppose ''cccccccccccccccccccccc03'' 10],
      syntheses = [], evidenceDocs = []\<rparr>"

text \<open>
  Three responses share one pairing key: two are \<open>pending\<close>, the third is
  \<open>synthesized\<close>.
\<close>

definition three_share_db :: db where
  "three_share_db =
     \<lparr>responses =
        [keyed ''bbbbbbbbbbbbbbbbbbbbbb21'' Support shared_key 5,
         keyed ''bbbbbbbbbbbbbbbbbbbbbb22'' Oppose shared_key 6,
         keyed ''bbbbbbbbbbbbbbbbbbbbbb23'' Oppose shared_key 7\<lparr>synthesisStatus := Synthesized\<rparr>],
      syntheses = [], evidenceDocs = []\<rparr>"

section \<open>Lemmas on the pipeline\<close>

lemma judge_failed:
  "stageFailed out \<Longrightarrow> \<exists>msg. evidenceJudgeResult out = failure msg"
  by (cases out) auto

lemma detector_failed:
  "stageFailed out \<Longrightarrow> \<exists>msg. contradictionDetectorResult out = failure msg"
  by (cases out) auto

lemma grok_failed:
  "stageFailed out \<Longrightarrow> grokResult out = JObj [(''success'', JBool False)]"
  by (cases out) auto

lemma synthesis_fell_back:
  "synthesisFellBack out \<Longrightarrow> \<exists>cause. mlSynthesisResult out = getFallbackResult cause"
  by (cases out) auto

lemma select_failure [simp]:
  "selectEvidenceJudgment (failure msg) = Inr (Some evidence_judgment_fallback)"
  "selectContradictionAnalysis (failure msg) = Inr (Some contradiction_analysis_fallback)"
  by (simp_all add: selectEvidenceJudgment_def selectContradictionAnalysis_def failure_def)

lemma select_unsuccessful:
  assumes "j \<noteq> JNull" and "\<not> truthy (js_get j ''success'')"
  shows "selectEvidenceJudgment j = Inr (Some evidence_judgment_fallback)"
    and "selectContradictionAnalysis j = Inr (Some contradiction_analysis_fallback)"
  using assms by (simp_all add: selectEvidenceJudgment_def selectContradictionAnalysis_def)

lemma apply_failed_explanation [simp]:
  "applyGrokExplanation m (JObj [(''success'', JBool False)]) = Inr \<lparr>body = m, grok = None\<rparr>"
  by (simp add: applyGrokExplanation_def)

lemma fallback_reasoning_nonempty [simp]: "fallback_reasoning err \<noteq> []"
  by (simp add: fallback_reasoning_def)

lemma fallback_not_null [simp]: "getFallbackResult cause \<noteq> JNull"
  by (simp add: getFallbackResult_def)

lemma undeclared_scores [simp]: "castMlScores c neutral_scores = Inr (Some (JObj []))"
  by (simp add: castMlScores_def neutral_scores_def supportOpposeMember_def numberMember_def)

lemma no_key_evidence [simp]: "castKeyEvidence c (JArr []) = Inr (JArr [])"
  by (simp add: castKeyEvidence_def)




lemma synthesizePair_cases:
  assumes "synthesizePair c w st tok = (r, st', sp)"
  shows "(\<exists>e. r = Inl e \<and> st' = st)
       \<or> (\<exists>d st1 s p m. r = Inr (formatForFrontend d)
             \<and> findPairedResponses (responses st) tok = Inr (s, p)
             \<and> saveSynthesisResult c st tok (sessionId s) (evidenceId s) (rid s) (rid p) m
                 = Inr (d, st1)
             \<and> st' = st1\<lparr>responses := markSynthesized [rid s, rid p] (responses st1)\<rparr>)"
  using assms
  by (auto simp: synthesizePair_def Let_def split: sum.splits prod.splits if_splits)

lemma save_cases:
  assumes "saveSynthesisResult c st tok sid eid a b m = Inr (d, st1)"
  shows "newSynthesisResult c tok sid eid a b m = Inr d
       \<and> st1 = st\<lparr>syntheses := syntheses st @ [minimized d]\<rparr>
       \<and> find (\<lambda>x. doc_synthesisPairId x = tok) (syntheses st) = None"
  using assms
  by (auto simp: saveSynthesisResult_def list_ex_iff find_None_iff split: sum.splits if_splits)

lemma new_document:
  assumes "newSynthesisResult c tok sid eid a b m = Inr d"
  shows "doc_synthesisPairId d = tok \<and> status d = Completed
       \<and> verdict d \<in> set verdict_enum \<and> 0 \<le> confidence d \<and> confidence d \<le> 1"
  using assms
  by (auto simp: newSynthesisResult_def split: option.splits sum.splits if_splits)

lemma minimized_fields [simp]:
  "doc_synthesisPairId (minimized d) = doc_synthesisPairId d"
  "status (minimized d) = status d"
  "verdict (minimized d) = verdict d"
  "confidence (minimized d) = confidence d"
  by (simp_all add: minimized_def)


lemma find_app:
  "find P (xs @ ys) = (case find P xs of None \<Rightarrow> find P ys | Some x \<Rightarrow> Some x)"
  by (induction xs) auto

lemma find_in_set: "find P xs = Some x \<Longrightarrow> x \<in> set xs \<and> P x"
  by (induction xs) (auto split: if_splits)

lemma runSynthesis_cases:
  assumes "runSynthesis c w st tok = (resp, st', sp)"
  shows "(st' = st \<and> (\<forall>r. resp \<noteq> Fresh r))
       \<or> (\<exists>d rs. resp = Fresh (formatForFrontend d)
             \<and> st' = st\<lparr>syntheses := syntheses st @ [minimized d], responses := rs\<rparr>
             \<and> find (\<lambda>x. doc_synthesisPairId x = tok) (syntheses st) = None
             \<and> doc_synthesisPairId d = tok \<and> status d = Completed
             \<and> verdict d \<in> set verdict_enum \<and> 0 \<le> confidence d \<and> confidence d \<le> 1)"
proof (cases "tok = []")
  case True
  with assms show ?thesis by (simp add: runSynthesis_def)
next
  case False
  show ?thesis
  proof (cases "find (\<lambda>x. doc_synthesisPairId x = tok) (syntheses st)")
    case (Some existing)
    with assms False show ?thesis by (auto simp: runSynthesis_def)
  next
    case None
    obtain r st1 sp1 where sy: "synthesizePair c w st tok = (r, st1, sp1)"
      by (cases "synthesizePair c w st tok") auto
    from synthesizePair_cases [OF sy] show ?thesis
    proof (elim disjE exE conjE)
      fix e
      assume "r = Inl e" "st1 = st"
      with assms False None sy show ?thesis by (auto simp: runSynthesis_def)
    next
      fix d st2 s p m
      assume r: "r = Inr (formatForFrontend d)"
        and sv: "saveSynthesisResult c st tok (sessionId s) (evidenceId s) (rid s) (rid p) m
                 = Inr (d, st2)"
        and st1: "st1 = st2\<lparr>responses := markSynthesized [rid s, rid p] (responses st2)\<rparr>"
      from save_cases [OF sv]
      have nd: "newSynthesisResult c tok (sessionId s) (evidenceId s) (rid s) (rid p) m = Inr d"
        and st2: "st2 = st\<lparr>syntheses := syntheses st @ [minimized d]\<rparr>"
        by simp_all
      from new_document [OF nd] assms False None sy r st1 st2 show ?thesis
        by (auto simp: runSynthesis_def)
    qed
  qed
qed

lemma reachable_documents:
  "reachable st \<Longrightarrow> d \<in> set (syntheses st) \<Longrightarrow>
     status d = Completed \<and> verdict d \<in> set verdict_enum \<and> 0 \<le> confidence d \<and> confidence d \<le> 1"
proof (induction arbitrary: d rule: reachable.induct)
  case (start st)
  then show ?case by simp
next
  case (run st c w tok resp st' spawned)
  from runSynthesis_cases [OF run.hyps(2)] run.prems run.IH show ?case
    by auto
next
  case (others st rs ev)
  then show ?case by simp
qed

lemma unchanged_on_error:
  "runSynthesis c w st tok = (ServerError e, st', sp) \<Longrightarrow> st' = st"
  using runSynthesis_cases [of c w st tok "ServerError e" st' sp] by auto

lemma run_result_stored:
  assumes first: "runSynthesis c w st tok = (resp1, st1, spawned1)"
    and content: "result_content resp1 = Some r"
  shows "tok \<noteq> [] \<and> (\<exists>d d0. find (\<lambda>x. doc_synthesisPairId x = tok) (syntheses st1) = Some d
            \<and> r = formatForFrontend d0 \<and> (d = d0 \<or> d = minimized d0))"
proof -
  have tok: "tok \<noteq> []"
    using first content by (auto simp: runSynthesis_def)
  from runSynthesis_cases [OF first]
  have "\<exists>d d0. find (\<lambda>x. doc_synthesisPairId x = tok) (syntheses st1) = Some d
            \<and> r = formatForFrontend d0 \<and> (d = d0 \<or> d = minimized d0)"
  proof (elim disjE exE conjE)
    assume "st1 = st" "\<forall>r. resp1 \<noteq> Fresh r"
    with first content tok show ?thesis
      by (auto simp: runSynthesis_def split: option.splits prod.splits sum.splits)
  next
    fix d rs
    assume d: "resp1 = Fresh (formatForFrontend d)"
      "st1 = st\<lparr>syntheses := syntheses st @ [minimized d], responses := rs\<rparr>"
      "find (\<lambda>x. doc_synthesisPairId x = tok) (syntheses st) = None"
      "doc_synthesisPairId d = tok"
    then have "find (\<lambda>x. doc_synthesisPairId x = tok) (syntheses st1) = Some (minimized d)"
      by (simp add: find_app)
    with d content show ?thesis by auto
  qed
  with tok show ?thesis by simp
qed

section \<open>Evaluation of the examples\<close>

lemmas pipeline_defs =
  runSynthesis_def synthesizePair_def synthesisStage_def runEvidenceJudge_def
  runContradictionDetector_def runMLSynthesisPipeline_def generateGrokExplanation_def
  selectEvidenceJudgment_def selectContradictionAnalysis_def applyGrokExplanation_def
  saveSynthesisResult_def newSynthesisResult_def ml_get_def failure_def verdict_enum_def
  getEvidenceForSession_def formatForFrontend_def getVerdictColor_def markSynthesized_def
  minimized_def castMlScores_def castKeyEvidence_def supportOpposeMember_def numberMember_def
  Let_def

lemmas example_defs =
  example_db_def example_token_def example_support_def example_oppose_def

lemma example_resolved:
  "findPairedResponses (responses example_db) example_token = Inr (example_support, example_oppose)"
  by (simp add: findPairedResponses_def splitApplies_def startsWith_def splitStrategy_def
      findById_def castObjectId_def lower_hex_def example_defs)

lemma failing_run:
  "fst (runSynthesis no_casts failing_workers example_db example_token)
     = Fresh (formatForFrontend example_memory_doc)
   \<and> fst (snd (runSynthesis no_casts failing_workers example_db example_token)) = example_db_after"
  using example_resolved
  by (simp add: pipeline_defs failing_workers_def getFallbackResult_def neutral_scores_def
      example_doc_def example_memory_doc_def example_db_after_def example_defs)

section \<open>Worker outcomes\<close>

text \<open>
  C5, as amended. For every stage, a \<open>close\<close> with exit code 0 and a body that parses
  makes that body the result of the stage. For the quality, contradiction and explanation
  stages every other outcome is a failure: the value injected for the quality and the
  contradiction stage is then the fixed fallback payload, and a failed explanation leaves
  the synthesis result as it is. The synthesis stage parses the standard output after
  a non-zero exit too: whenever the body parses, at any exit code, the body is the
  result; every other outcome gives the fallback result of \<open>getFallbackResult\<close>.
  A body of the quality or the contradiction worker whose \<open>success\<close> member is
  not truthy is replaced by the fallback payload as a failure is.
\<close>

theorem worker_outcomes:
  "evidenceJudgeResult (Closed 0 (Some j)) = j
   \<and> contradictionDetectorResult (Closed 0 (Some j)) = j
   \<and> grokResult (Closed 0 (Some j)) = j
   \<and> mlSynthesisResult (Closed code (Some j)) = j
   \<and> (stageFailed out \<longrightarrow>
        selectEvidenceJudgment (evidenceJudgeResult out) = Inr (Some evidence_judgment_fallback)
        \<and> selectContradictionAnalysis (contradictionDetectorResult out)
            = Inr (Some contradiction_analysis_fallback)
        \<and> applyGrokExplanation m (grokResult out) = Inr \<lparr>body = m, grok = None\<rparr>)
   \<and> (synthesisFellBack out \<longrightarrow> (\<exists>cause. mlSynthesisResult out = getFallbackResult cause))
   \<and> (j \<noteq> JNull \<and> \<not> truthy (js_get j ''success'') \<longrightarrow>
        selectEvidenceJudgment (evidenceJudgeResult (Closed 0 (Some j)))
          = Inr (Some evidence_judgment_fallback)
        \<and> selectContradictionAnalysis (contradictionDetectorResult (Closed 0 (Some j)))
            = Inr (Some contradiction_analysis_fallback))"
  using judge_failed [of out] detector_failed [of out] grok_failed [of out]
    synthesis_fell_back [of out] select_unsuccessful [of j]
  by auto

theorem worker_outcomes_witness:
  "stageFailed (Closed 2 None) \<and> synthesisFellBack (Closed 2 None)
   \<and> selectEvidenceJudgment (evidenceJudgeResult (Closed 2 None))
       = Inr (Some evidence_judgment_fallback)
   \<and> selectContradictionAnalysis (contradictionDetectorResult (Closed 2 None))
       = Inr (Some contradiction_analysis_fallback)
   \<and> applyGrokExplanation (JNum 1) (grokResult (Closed 2 None)) = Inr \<lparr>body = JNum 1, grok = None\<rparr>
   \<and> (\<exists>cause. mlSynthesisResult (Closed 2 None) = getFallbackResult cause)"
  using worker_outcomes [of JNull 0 "Closed 2 None" "JNum 1"]
  by simp

text \<open>
  C5 as stated fails: a synthesis worker that exits with code 1 and prints a JSON
  document contributes that document as the result of the stage.
\<close>

theorem nonzero_exit_counterexample:
  "stageFailed (Closed 1 (Some own_output))
   \<and> mlSynthesisResult (Closed 1 (Some own_output)) = own_output
   \<and> js_get (mlSynthesisResult (Closed 1 (Some own_output))) ''final_verdict''
       = Some (JStr ''support'')
   \<and> js_get (mlSynthesisResult (Closed 1 (Some own_output))) ''fallback_used'' = None"
  by (simp add: own_output_def)

section \<open>The fully degraded run\<close>





lemma failing_run_triple:
  "runSynthesis no_casts failing_workers example_db example_token
     = (Fresh (formatForFrontend example_memory_doc), example_db_after,
        snd (snd (runSynthesis no_casts failing_workers example_db example_token)))"
  using failing_run by (simp add: prod_eq_iff)

lemma reachable_after: "reachable example_db_after"
proof -
  have start: "reachable example_db"
    by (rule reachable.start) (simp add: example_db_def)
  show ?thesis
    using reachable.run [OF start failing_run_triple] .
qed


section \<open>Idempotence\<close>




section \<open>Invariants of the stored results\<close>

text \<open>
  C3. In every store the system can reach, a result that is read back, by
  \<open>getSynthesisResult\<close> or as the content \<open>runSynthesis\<close> returns, has a confidence
  in the closed interval from 0 to 1 and a verdict among \<open>support\<close>, \<open>oppose\<close>,
  \<open>inconclusive\<close> and \<open>mixed\<close>; the fallback content is no exception.
\<close>

theorem read_back_bounds:
  assumes "reachable st"
  shows "(getSynthesisResult st tok = Some d \<longrightarrow>
            0 \<le> confidence d \<and> confidence d \<le> 1
            \<and> verdict d \<in> {''support'', ''oppose'', ''inconclusive'', ''mixed''})
       \<and> (runSynthesis c w st tok = (resp, st', spawned) \<and> result_content resp = Some r \<longrightarrow>
            0 \<le> fe_confidence r \<and> fe_confidence r \<le> 1
            \<and> fe_verdict r \<in> {''support'', ''oppose'', ''inconclusive'', ''mixed''})"
proof (intro conjI impI)
  assume g: "getSynthesisResult st tok = Some d"
  then have "d \<in> set (syntheses st)"
    using find_in_set [of "\<lambda>x. doc_synthesisPairId x = tok" "syntheses st" d]
    by (simp add: getSynthesisResult_def)
  from reachable_documents [OF assms this]
  show "0 \<le> confidence d" and "confidence d \<le> 1"
    and "verdict d \<in> {''support'', ''oppose'', ''inconclusive'', ''mixed''}"
    by (simp_all add: verdict_enum_def)
next
  assume run: "runSynthesis c w st tok = (resp, st', spawned) \<and> result_content resp = Some r"
  then have after: "reachable st'"
    using reachable.run [OF assms] by blast
  from run run_result_stored [of c w st tok resp st' spawned r]
  obtain x d0 where f: "find (\<lambda>x. doc_synthesisPairId x = tok) (syntheses st') = Some x"
    and r: "r = formatForFrontend d0" and x0: "x = d0 \<or> x = minimized d0"
    by auto
  from find_in_set [OF f] have x: "x \<in> set (syntheses st')"
    by simp
  from x0 have same: "confidence x = confidence d0" "verdict x = verdict d0"
    by auto
  from reachable_documents [OF after x] r same
  show "0 \<le> fe_confidence r" and "fe_confidence r \<le> 1"
    and "fe_verdict r \<in> {''support'', ''oppose'', ''inconclusive'', ''mixed''}"
    by (simp_all add: verdict_enum_def formatForFrontend_def)
qed

theorem read_back_bounds_witness:
  "reachable example_db_after
   \<and> getSynthesisResult example_db_after example_token = Some example_doc
   \<and> 0 \<le> confidence example_doc \<and> confidence example_doc \<le> 1
   \<and> verdict example_doc \<in> {''support'', ''oppose'', ''inconclusive'', ''mixed''}"
proof -
  have got: "getSynthesisResult example_db_after example_token = Some example_doc"
    by (simp add: getSynthesisResult_def example_db_after_def example_doc_def
        example_memory_doc_def)
  from read_back_bounds [OF reachable_after, of example_token example_doc] reachable_after got
  show ?thesis by simp
qed

text \<open>
  C9. In every store the system can reach, each stored result has status
  \<open>completed\<close>: none is stored as \<open>failed\<close> or left at the default \<open>processing\<close>.
  A call of \<open>runSynthesis\<close> that raises an error, a write that the store refuses
  included, leaves the store as it was, with no new document.
\<close>

theorem stored_status_completed:
  "(reachable st \<and> d \<in> set (syntheses st) \<longrightarrow> status d = Completed)
   \<and> (saveSynthesisResult c st tok sid eid a b m = Inr (d', st1) \<longrightarrow> status d' = Completed)
   \<and> (runSynthesis c w st tok = (ServerError e, st', spawned) \<longrightarrow> st' = st)"
  using reachable_documents [of st d] unchanged_on_error [of c w st tok e st' spawned]
    save_cases [of c st tok sid eid a b m d' st1] new_document [of c tok sid eid a b m d']
  by blast

theorem stored_status_completed_witness:
  "reachable example_db_after \<and> example_doc \<in> set (syntheses example_db_after)
   \<and> status example_doc = Completed
   \<and> runSynthesis no_casts failing_workers example_db ''nobody''
       = (ServerError (PairNotFound ''nobody''), example_db, [])"
proof -
  have mem: "example_doc \<in> set (syntheses example_db_after)"
    by (simp add: example_db_after_def)
  have err: "runSynthesis no_casts failing_workers example_db ''nobody''
       = (ServerError (PairNotFound ''nobody''), example_db, [])"
    by (simp add: runSynthesis_def synthesizePair_def findPairedResponses_def splitApplies_def
        startsWith_def pairIdStrategy_def counterpartStrategy_def findById_def castObjectId_def
        example_db_def)
  from stored_status_completed [where st = example_db_after and d = example_doc
      and c = no_casts and w = failing_workers and tok = "''nobody''"
      and e = "PairNotFound ''nobody''" and st' = example_db and spawned = "[]"]
    reachable_after mem err
  show ?thesis by simp
qed

section \<open>The explanation overlay\<close>















section \<open>Lemmas on the resolver\<close>

lemma find_filter: "find P (filter Q xs) = find (\<lambda>x. Q x \<and> P x) xs"
  by (induction xs) auto

lemma find_exists: "x \<in> set xs \<Longrightarrow> P x \<Longrightarrow> \<exists>y. find P xs = Some y"
  by (induction xs) auto

lemma supportAndOppose_Some:
  assumes "supportAndOppose rs = Some (s, p)"
  shows "find (\<lambda>r. agentType r = Support) rs = Some s
       \<and> find (\<lambda>r. agentType r = Oppose) rs = Some p"
  using assms by (auto simp: supportAndOppose_def split: option.splits)

lemma supportAndOppose_types:
  assumes "supportAndOppose rs = Some (s, p)"
  shows "agentType s = Support \<and> agentType p = Oppose \<and> s \<in> set rs \<and> p \<in> set rs"
  using supportAndOppose_Some [OF assms] find_in_set [of _ rs s] find_in_set [of _ rs p]
  by auto

lemma supportAndOppose_complete:
  assumes "a \<in> set rs" "agentType a = Support" "b \<in> set rs" "agentType b = Oppose"
  shows "\<exists>sp. supportAndOppose rs = Some sp"
proof -
  obtain s where "find (\<lambda>r. agentType r = Support) rs = Some s"
    using find_exists [OF assms(1), of "\<lambda>r. agentType r = Support"] assms(2) by auto
  moreover obtain p where "find (\<lambda>r. agentType r = Oppose) rs = Some p"
    using find_exists [OF assms(3), of "\<lambda>r. agentType r = Oppose"] assms(4) by auto
  ultimately show ?thesis by (simp add: supportAndOppose_def)
qed

lemma push_key_keys: "fst ` set (push_key acc k r) = insert k (fst ` set acc)"
  by (induction acc k r rule: push_key.induct) auto

lemma push_key_distinct:
  "distinct (map fst acc) \<Longrightarrow> distinct (map fst (push_key acc k r))"
proof (induction acc k r rule: push_key.induct)
  case (1 k r)
  then show ?case by simp
next
  case (2 k' g kgs k r)
  then show ?case
    using push_key_keys [of kgs k r] by (auto simp: image_iff)
qed

lemma push_key_map_of:
  "map_of (push_key acc k r) = (map_of acc)(k \<mapsto> group_of acc k @ [r])"
  by (induction acc k r rule: push_key.induct) (auto simp: group_of_def fun_eq_iff)

lemma groupBySession_groups:
  assumes "groupBySession acc rs = Inr G" and "distinct (map fst acc)"
  shows "distinct (map fst G)
       \<and> fst ` set G = fst ` set acc \<union> sessionId ` set rs
       \<and> (\<forall>k. group_of G k = group_of acc k @ filter (\<lambda>r. sessionId r = k) rs)"
  using assms
proof (induction rs arbitrary: acc)
  case Nil
  then show ?case by simp
next
  case (Cons r rs)
  from Cons.prems(1) have ok: "sessionId r \<notin> set object_prototype_keys"
    and rest: "groupBySession (push_key acc (sessionId r) r) rs = Inr G"
    by (auto split: if_splits)
  from Cons.IH [OF rest push_key_distinct [OF Cons.prems(2)]]
  show ?case
    by (auto simp: push_key_keys push_key_map_of group_of_def)
qed

lemma groupBySession_total:
  "\<forall>r\<in>set rs. sessionId r \<notin> set object_prototype_keys \<Longrightarrow> \<exists>G. groupBySession acc rs = Inr G"
  by (induction rs arbitrary: acc) auto

lemma group_member:
  assumes "distinct (map fst G)" and "(k, g) \<in> set G"
  shows "group_of G k = g"
  using assms by (simp add: group_of_def)

lemma forin_order_set: "set (forin_order kgs) = set kgs"
  by (auto simp: forin_order_def)

lemma firstCompletePair_Some:
  "firstCompletePair kgs = Some sp \<Longrightarrow>
     \<exists>pre k g post. kgs = pre @ (k, g) # post
        \<and> (\<forall>x\<in>set pre. supportAndOppose (snd x) = None) \<and> supportAndOppose g = Some sp"
proof (induction kgs)
  case Nil
  then show ?case by simp
next
  case (Cons kg kgs)
  obtain k g where kg: "kg = (k, g)" by (cases kg)
  show ?case
  proof (cases "supportAndOppose g")
    case None
    with Cons kg obtain pre k' g' post where
      "kgs = pre @ (k', g') # post" "\<forall>x\<in>set pre. supportAndOppose (snd x) = None"
      "supportAndOppose g' = Some sp"
      by auto
    with None kg have "kg # kgs = (kg # pre) @ (k', g') # post
        \<and> (\<forall>x\<in>set (kg # pre). supportAndOppose (snd x) = None) \<and> supportAndOppose g' = Some sp"
      by simp
    then show ?thesis by blast
  next
    case (Some a)
    with Cons.prems kg have "kg # kgs = [] @ (k, g) # kgs
        \<and> (\<forall>x\<in>set []. supportAndOppose (snd x) = None) \<and> supportAndOppose g = Some sp"
      by simp
    then show ?thesis by blast
  qed
qed

lemma firstCompletePair_None:
  "firstCompletePair kgs = None \<longleftrightarrow> (\<forall>x\<in>set kgs. supportAndOppose (snd x) = None)"
  by (induction kgs) (auto split: option.splits)

lemma insert_desc_mset: "mset (insert_desc r xs) = add_mset r (mset xs)"
  by (induction xs) auto

lemma sorted_insert_desc:
  "sorted_wrt (\<lambda>x y. createdAt y \<le> createdAt x) xs \<Longrightarrow>
     sorted_wrt (\<lambda>x y. createdAt y \<le> createdAt x) (insert_desc r xs)"
proof (induction xs)
  case Nil
  then show ?case by simp
next
  case (Cons x xs)
  have "set (insert_desc r xs) = insert r (set xs)"
    using insert_desc_mset [of r xs] by (metis set_mset_add_mset_insert set_mset_mset)
  with Cons show ?case by auto
qed

lemma newest_first_mset: "mset (foldr insert_desc rs []) = mset rs"
  by (induction rs) (auto simp: insert_desc_mset)

lemma newest_first_sorted:
  "sorted_wrt (\<lambda>x y. createdAt y \<le> createdAt x) (foldr insert_desc rs [])"
  by (induction rs) (auto simp: sorted_insert_desc)

lemma recent_are_newest:
  "\<exists>older. mset (recentResponses rs @ older) = mset rs
      \<and> (\<forall>x\<in>set (recentResponses rs). \<forall>y\<in>set older. createdAt y \<le> createdAt x)"
proof -
  let ?all = "foldr insert_desc rs []"
  have "sorted_wrt (\<lambda>x y. createdAt y \<le> createdAt x) (take 10 ?all @ drop 10 ?all)"
    using newest_first_sorted [of rs] by simp
  then have "\<forall>x\<in>set (take 10 ?all). \<forall>y\<in>set (drop 10 ?all). createdAt y \<le> createdAt x"
    unfolding sorted_wrt_append by blast
  moreover have "mset (take 10 ?all @ drop 10 ?all) = mset rs"
    using newest_first_mset [of rs] by simp
  ultimately show ?thesis unfolding recentResponses_def by blast
qed

lemma recent_strategy_pair:
  assumes "recentSessionStrategy rs = Inr (Some (s, p))"
  shows "agentType s = Support \<and> agentType p = Oppose \<and> sessionId p = sessionId s
     \<and> find (\<lambda>r. sessionId r = sessionId s \<and> agentType r = Support) (recentResponses rs) = Some s
     \<and> find (\<lambda>r. sessionId r = sessionId s \<and> agentType r = Oppose) (recentResponses rs) = Some p
     \<and> (\<exists>bySession pre g post.
           groupBySession [] (recentResponses rs) = Inr bySession
           \<and> forin_order bySession = pre @ (sessionId s, g) # post
           \<and> (\<forall>x\<in>set pre. supportAndOppose (snd x) = None))"
proof -
  let ?scan = "recentResponses rs"
  from assms obtain G where G: "groupBySession [] ?scan = Inr G"
    and first: "firstCompletePair (forin_order G) = Some (s, p)"
    by (auto simp: recentSessionStrategy_def split: sum.splits)
  from groupBySession_groups [OF G]
  have dist: "distinct (map fst G)"
    and groups: "\<And>k. group_of G k = filter (\<lambda>r. sessionId r = k) ?scan"
    by (simp_all add: group_of_def)
  from firstCompletePair_Some [OF first] obtain pre k g post where
    order: "forin_order G = pre @ (k, g) # post"
    and before: "\<forall>x\<in>set pre. supportAndOppose (snd x) = None"
    and both: "supportAndOppose g = Some (s, p)"
    by blast
  have "(k, g) \<in> set (forin_order G)" using order by simp
  then have "(k, g) \<in> set G" by (simp add: forin_order_set)
  from group_member [OF dist this] groups
  have g: "g = filter (\<lambda>r. sessionId r = k) ?scan" by simp
  from supportAndOppose_types [OF both] g
  have types: "agentType s = Support" "agentType p = Oppose"
    and k: "sessionId s = k" "sessionId p = k"
    by auto
  from supportAndOppose_Some [OF both] g k
  have "find (\<lambda>r. sessionId r = sessionId s \<and> agentType r = Support) ?scan = Some s"
    and "find (\<lambda>r. sessionId r = sessionId s \<and> agentType r = Oppose) ?scan = Some p"
    by (simp_all add: find_filter)
  with types k G order before show ?thesis by blast
qed

lemma recent_strategy_complete:
  assumes keys: "\<forall>r\<in>set (recentResponses rs). sessionId r \<notin> set object_prototype_keys"
    and a: "a \<in> set (recentResponses rs)" "agentType a = Support"
    and b: "b \<in> set (recentResponses rs)" "agentType b = Oppose"
    and same: "sessionId b = sessionId a"
  shows "\<exists>sp. recentSessionStrategy rs = Inr (Some sp)"
proof -
  let ?scan = "recentResponses rs"
  from groupBySession_total [OF keys] obtain G where G: "groupBySession [] ?scan = Inr G"
    by blast
  from groupBySession_groups [OF G]
  have dist: "distinct (map fst G)"
    and dom: "fst ` set G = sessionId ` set ?scan"
    and groups: "\<And>k. group_of G k = filter (\<lambda>r. sessionId r = k) ?scan"
    by (simp_all add: group_of_def)
  from a(1) dom have "sessionId a \<in> fst ` set G" by auto
  then obtain g where mem: "(sessionId a, g) \<in> set G" by auto
  from group_member [OF dist mem] groups
  have g: "g = filter (\<lambda>r. sessionId r = sessionId a) ?scan" by simp
  with a b same have "a \<in> set g" "b \<in> set g" by auto
  from supportAndOppose_complete [OF this(1) a(2) this(2) b(2)]
  obtain sp where "supportAndOppose g = Some sp" by blast
  with mem have "\<not> (\<forall>x\<in>set (forin_order G). supportAndOppose (snd x) = None)"
    unfolding forin_order_set by force
  then have "firstCompletePair (forin_order G) \<noteq> None"
    by (simp add: firstCompletePair_None)
  with G show ?thesis by (auto simp: recentSessionStrategy_def)
qed

lemma legacy_token_skips_split: "startsWith tok ''pair_'' \<Longrightarrow> \<not> splitApplies tok"
  by (simp add: splitApplies_def)

section \<open>Pair resolution\<close>

lemmas resolver_defs =
  findPairedResponses_def splitApplies_def startsWith_def splitStrategy_def
  recentSessionStrategy_def recentResponses_def pairIdStrategy_def counterpartStrategy_def
  findById_def castObjectId_def lower_hex_def supportAndOppose_def forin_order_def
  array_index_def object_prototype_keys_def

lemmas crowd_defs =
  crowded_responses_def legacy_token_def example_support_def example_oppose_def
  second_support_def other_support_def two_supports_token_def
  constructor_responses_def numbered_responses_def keyed_def

lemma scan_length: "length (recentResponses rs) = min 10 (length rs)"
proof -
  have "length (foldr insert_desc rs []) = length rs"
    using newest_first_mset [of rs] by (rule mset_eq_length)
  then show ?thesis
    by (simp add: recentResponses_def min.commute)
qed

lemma crowded_strategy:
  "recentSessionStrategy crowded_responses = Inr (Some (second_support, example_oppose))"
  by (simp add: resolver_defs crowd_defs)

text \<open>
  C7, as amended. For a token with the prefix \<open>pair_\<close> the resolver scans the ten most
  recently created responses (all of them when there are fewer than ten) and groups
  them by session. When the strategy returns a pair, that pair is the answer of the
  resolver; it comes from the first session, in the order in which the loop visits the
  groups (\<open>forin_order\<close>: session ids that are array indices first, in ascending
  numeric order, then the others in the order of their first response in the scan),
  that holds at least one response of each agent type, and it is the most recently
  created \<open>support\<close> and the most recently created \<open>oppose\<close> response of that
  session within the scan. Further responses of a type do not disqualify a session:
  when no scanned session id names a member of \<open>Object.prototype\<close>, any scanned
  session with at least one response of each type makes the strategy succeed.
\<close>

theorem legacy_resolution:
  assumes legacy: "startsWith tok ''pair_''"
  shows "(length (recentResponses rs) = min 10 (length rs)
          \<and> (\<exists>older. mset (recentResponses rs @ older) = mset rs
                \<and> (\<forall>x\<in>set (recentResponses rs). \<forall>y\<in>set older. createdAt y \<le> createdAt x)))
       \<and> (recentSessionStrategy rs = Inr (Some (s, p)) \<longrightarrow>
            findPairedResponses rs tok = Inr (s, p)
            \<and> agentType s = Support \<and> agentType p = Oppose \<and> sessionId p = sessionId s
            \<and> find (\<lambda>r. sessionId r = sessionId s \<and> agentType r = Support) (recentResponses rs)
                = Some s
            \<and> find (\<lambda>r. sessionId r = sessionId s \<and> agentType r = Oppose) (recentResponses rs)
                = Some p
            \<and> (\<exists>bySession pre g post.
                  groupBySession [] (recentResponses rs) = Inr bySession
                  \<and> forin_order bySession = pre @ (sessionId s, g) # post
                  \<and> (\<forall>x\<in>set pre. supportAndOppose (snd x) = None)))
       \<and> ((\<forall>r\<in>set (recentResponses rs). sessionId r \<notin> set object_prototype_keys)
            \<and> a \<in> set (recentResponses rs) \<and> agentType a = Support
            \<and> b \<in> set (recentResponses rs) \<and> agentType b = Oppose
            \<and> sessionId b = sessionId a \<longrightarrow>
            (\<exists>sp. recentSessionStrategy rs = Inr (Some sp) \<and> findPairedResponses rs tok = Inr sp))"
proof -
  have direct: "findPairedResponses rs tok = Inr sp" if "recentSessionStrategy rs = Inr (Some sp)" for sp
    using that legacy legacy_token_skips_split [OF legacy]
    by (simp add: findPairedResponses_def)
  have scan: "length (recentResponses rs) = min 10 (length rs)
          \<and> (\<exists>older. mset (recentResponses rs @ older) = mset rs
                \<and> (\<forall>x\<in>set (recentResponses rs). \<forall>y\<in>set older. createdAt y \<le> createdAt x))"
    using recent_are_newest [of rs] scan_length [of rs] by simp
  have pair: "recentSessionStrategy rs = Inr (Some (s, p)) \<longrightarrow>
            findPairedResponses rs tok = Inr (s, p)
            \<and> agentType s = Support \<and> agentType p = Oppose \<and> sessionId p = sessionId s
            \<and> find (\<lambda>r. sessionId r = sessionId s \<and> agentType r = Support) (recentResponses rs)
                = Some s
            \<and> find (\<lambda>r. sessionId r = sessionId s \<and> agentType r = Oppose) (recentResponses rs)
                = Some p
            \<and> (\<exists>bySession pre g post.
                  groupBySession [] (recentResponses rs) = Inr bySession
                  \<and> forin_order bySession = pre @ (sessionId s, g) # post
                  \<and> (\<forall>x\<in>set pre. supportAndOppose (snd x) = None))"
    using recent_strategy_pair [of rs s p] direct [of "(s, p)"] by blast
  have complete: "(\<forall>r\<in>set (recentResponses rs). sessionId r \<notin> set object_prototype_keys)
            \<and> a \<in> set (recentResponses rs) \<and> agentType a = Support
            \<and> b \<in> set (recentResponses rs) \<and> agentType b = Oppose
            \<and> sessionId b = sessionId a \<longrightarrow>
            (\<exists>sp. recentSessionStrategy rs = Inr (Some sp) \<and> findPairedResponses rs tok = Inr sp)"
    using recent_strategy_complete [of rs a b] direct by blast
  from scan pair complete show ?thesis by blast
qed

theorem legacy_resolution_witness:
  "startsWith legacy_token ''pair_''
   \<and> length (recentResponses crowded_responses) = 3
   \<and> recentSessionStrategy crowded_responses = Inr (Some (second_support, example_oppose))
   \<and> findPairedResponses crowded_responses legacy_token = Inr (second_support, example_oppose)
   \<and> agentType second_support = Support \<and> agentType example_oppose = Oppose
   \<and> sessionId example_oppose = sessionId second_support
   \<and> find (\<lambda>r. sessionId r = sessionId second_support \<and> agentType r = Support)
        (recentResponses crowded_responses) = Some second_support
   \<and> list_all (\<lambda>r. sessionId r \<notin> set object_prototype_keys) (recentResponses crowded_responses)
   \<and> example_support \<in> set (recentResponses crowded_responses)
   \<and> agentType example_support = Support
   \<and> example_oppose \<in> set (recentResponses crowded_responses)
   \<and> sessionId example_oppose = sessionId example_support
   \<and> (\<exists>sp. findPairedResponses crowded_responses legacy_token = Inr sp)"
proof -
  have legacy: "startsWith legacy_token ''pair_''"
    by (simp add: startsWith_def legacy_token_def)
  have scanned: "\<forall>r\<in>set (recentResponses crowded_responses).
                   sessionId r \<notin> set object_prototype_keys"
    "example_support \<in> set (recentResponses crowded_responses)"
    "agentType example_support = Support"
    "example_oppose \<in> set (recentResponses crowded_responses)"
    "agentType example_oppose = Oppose"
    "sessionId example_oppose = sessionId example_support"
    by (simp_all add: recentResponses_def object_prototype_keys_def crowd_defs)
  have size: "length crowded_responses = 3"
    by (simp add: crowded_responses_def)
  from legacy_resolution [OF legacy, of crowded_responses second_support example_oppose
      example_support example_oppose]
    legacy crowded_strategy scanned size
  show ?thesis by (simp add: list_all_iff)
qed

text \<open>
  C7 as stated fails. Session \<open>s1\<close> holds two \<open>support\<close> responses and one
  \<open>oppose\<close> response, and the strategy returns a pair from it. A session called
  \<open>constructor\<close> holds exactly one response of each type, and the resolver finds
  no pair. And of two sessions with exactly one response of each type, the pair comes
  from session \<open>9\<close>, whose responses are the older ones, not from session \<open>10\<close>,
  which the scan meets first.
\<close>

theorem legacy_resolution_counterexample:
  "startsWith legacy_token ''pair_''
   \<and> length (filter (\<lambda>r. sessionId r = ''s1'' \<and> agentType r = Support)
        (recentResponses crowded_responses)) = 2
   \<and> findPairedResponses crowded_responses legacy_token = Inr (second_support, example_oppose)
   \<and> sessionId second_support = ''s1''
   \<and> map (\<lambda>r. (sessionId r, agentType r)) (recentResponses constructor_responses)
       = [(''constructor'', Oppose), (''constructor'', Support)]
   \<and> findPairedResponses constructor_responses legacy_token = Inl (PairNotFound legacy_token)
   \<and> map (\<lambda>r. (sessionId r, agentType r, createdAt r)) (recentResponses numbered_responses)
       = [(''10'', Oppose, 8), (''10'', Support, 7), (''9'', Oppose, 6), (''9'', Support, 5)]
   \<and> map_sum id (\<lambda>sp. (sessionId (fst sp), sessionId (snd sp)))
        (findPairedResponses numbered_responses legacy_token) = Inr (''9'', ''9'')"
proof -
  have crowded: "length (filter (\<lambda>r. sessionId r = ''s1'' \<and> agentType r = Support)
        (recentResponses crowded_responses)) = 2"
    "findPairedResponses crowded_responses legacy_token = Inr (second_support, example_oppose)"
    "sessionId second_support = ''s1''"
    "startsWith legacy_token ''pair_''"
    by (simp_all add: resolver_defs crowd_defs)
  have named: "map (\<lambda>r. (sessionId r, agentType r)) (recentResponses constructor_responses)
       = [(''constructor'', Oppose), (''constructor'', Support)]"
    "findPairedResponses constructor_responses legacy_token = Inl (PairNotFound legacy_token)"
    by (simp_all add: resolver_defs crowd_defs)
  have numbered: "map (\<lambda>r. (sessionId r, agentType r, createdAt r))
        (recentResponses numbered_responses)
       = [(''10'', Oppose, 8), (''10'', Support, 7), (''9'', Oppose, 6), (''9'', Support, 5)]"
    "map_sum id (\<lambda>sp. (sessionId (fst sp), sessionId (snd sp)))
        (findPairedResponses numbered_responses legacy_token) = Inr (''9'', ''9'')"
    by (simp_all add: resolver_defs crowd_defs index_key_def decimal_value_def)
  from crowded named numbered show ?thesis by simp
qed

text \<open>
  C4, as amended. The resolver tries its strategies in the fixed order split form,
  legacy form, cross-reference form, single-id form; the first two only on tokens of
  their form. A strategy that throws counts as one that found nothing (\<open>found\<close>),
  and the next one is tried. The resolver fails only with the pair-not-found error,
  and only when no strategy that was tried found a pair; the first strategy that
  finds a pair decides the answer. The legacy and the cross-reference strategy return
  one \<open>support\<close> and one \<open>oppose\<close> response. The split form returns the two responses
  the token names, in the order of the token, and the single-id form takes the roles
  from the agent type of the named response alone: neither checks the agent type of
  both responses.
\<close>

theorem resolver_order:
  "(findPairedResponses rs tok = Inl e \<longrightarrow>
      e = PairNotFound tok
      \<and> (splitApplies tok \<longrightarrow> found (splitStrategy rs tok) = None)
      \<and> (startsWith tok ''pair_'' \<longrightarrow> found (recentSessionStrategy rs) = None)
      \<and> found (pairIdStrategy rs tok) = None
      \<and> found (counterpartStrategy rs tok) = None)
   \<and> (splitApplies tok \<and> splitStrategy rs tok = Inr (Some pr) \<longrightarrow>
        findPairedResponses rs tok = Inr pr)
   \<and> (startsWith tok ''pair_'' \<and> recentSessionStrategy rs = Inr (Some pr) \<longrightarrow>
        findPairedResponses rs tok = Inr pr)
   \<and> ((splitApplies tok \<longrightarrow> found (splitStrategy rs tok) = None)
        \<and> (startsWith tok ''pair_'' \<longrightarrow> found (recentSessionStrategy rs) = None)
        \<and> pairIdStrategy rs tok = Inr (Some pr) \<longrightarrow>
        findPairedResponses rs tok = Inr pr)
   \<and> ((splitApplies tok \<longrightarrow> found (splitStrategy rs tok) = None)
        \<and> (startsWith tok ''pair_'' \<longrightarrow> found (recentSessionStrategy rs) = None)
        \<and> found (pairIdStrategy rs tok) = None
        \<and> counterpartStrategy rs tok = Inr (Some pr) \<longrightarrow>
        findPairedResponses rs tok = Inr pr)
   \<and> (recentSessionStrategy rs = Inr (Some (s, p)) \<or> pairIdStrategy rs tok = Inr (Some (s, p)) \<longrightarrow>
        agentType s = Support \<and> agentType p = Oppose)
   \<and> (splitStrategy rs tok = Inr (Some (s, p)) \<longrightarrow>
        (\<exists>supportId opposeId. split_on (CHR ''_'') tok = [supportId, opposeId]
           \<and> findById rs supportId = Inr (Some s) \<and> findById rs opposeId = Inr (Some p)))
   \<and> (counterpartStrategy rs tok = Inr (Some (s, p)) \<longrightarrow>
        (\<exists>mainResponse counterpart. findById rs tok = Inr (Some mainResponse)
           \<and> (s, p) = (if agentType mainResponse = Support then (mainResponse, counterpart)
                        else (counterpart, mainResponse))))"
proof -
  have failure: "findPairedResponses rs tok = Inl e \<longrightarrow>
      e = PairNotFound tok
      \<and> (splitApplies tok \<longrightarrow> found (splitStrategy rs tok) = None)
      \<and> (startsWith tok ''pair_'' \<longrightarrow> found (recentSessionStrategy rs) = None)
      \<and> found (pairIdStrategy rs tok) = None
      \<and> found (counterpartStrategy rs tok) = None"
    by (auto simp: findPairedResponses_def split: option.splits if_splits)
  have first: "splitApplies tok \<and> splitStrategy rs tok = Inr (Some pr) \<longrightarrow>
        findPairedResponses rs tok = Inr pr"
    by (simp add: findPairedResponses_def)
  have second: "startsWith tok ''pair_'' \<and> recentSessionStrategy rs = Inr (Some pr) \<longrightarrow>
        findPairedResponses rs tok = Inr pr"
    using legacy_token_skips_split [of tok] by (simp add: findPairedResponses_def)
  have third: "(splitApplies tok \<longrightarrow> found (splitStrategy rs tok) = None)
        \<and> (startsWith tok ''pair_'' \<longrightarrow> found (recentSessionStrategy rs) = None)
        \<and> pairIdStrategy rs tok = Inr (Some pr) \<longrightarrow>
        findPairedResponses rs tok = Inr pr"
    by (simp add: findPairedResponses_def)
  have fourth: "(splitApplies tok \<longrightarrow> found (splitStrategy rs tok) = None)
        \<and> (startsWith tok ''pair_'' \<longrightarrow> found (recentSessionStrategy rs) = None)
        \<and> found (pairIdStrategy rs tok) = None
        \<and> counterpartStrategy rs tok = Inr (Some pr) \<longrightarrow>
        findPairedResponses rs tok = Inr pr"
    by (simp add: findPairedResponses_def)
  have types: "recentSessionStrategy rs = Inr (Some (s, p)) \<or> pairIdStrategy rs tok = Inr (Some (s, p)) \<longrightarrow>
        agentType s = Support \<and> agentType p = Oppose"
  proof
    assume "recentSessionStrategy rs = Inr (Some (s, p)) \<or> pairIdStrategy rs tok = Inr (Some (s, p))"
    then show "agentType s = Support \<and> agentType p = Oppose"
    proof
      assume "recentSessionStrategy rs = Inr (Some (s, p))"
      from recent_strategy_pair [OF this] show ?thesis by simp
    next
      assume "pairIdStrategy rs tok = Inr (Some (s, p))"
      then have "\<exists>xs. supportAndOppose xs = Some (s, p)"
        by (auto simp: pairIdStrategy_def Let_def split: option.splits if_splits)
      then show ?thesis using supportAndOppose_types by blast
    qed
  qed
  have split: "splitStrategy rs tok = Inr (Some (s, p)) \<longrightarrow>
        (\<exists>supportId opposeId. split_on (CHR ''_'') tok = [supportId, opposeId]
           \<and> findById rs supportId = Inr (Some s) \<and> findById rs opposeId = Inr (Some p))"
    by (auto simp: splitStrategy_def split: list.splits sum.splits option.splits)
  have single: "counterpartStrategy rs tok = Inr (Some (s, p)) \<longrightarrow>
        (\<exists>mainResponse counterpart. findById rs tok = Inr (Some mainResponse)
           \<and> (s, p) = (if agentType mainResponse = Support then (mainResponse, counterpart)
                        else (counterpart, mainResponse)))"
    by (auto simp: counterpartStrategy_def split: sum.splits option.splits if_splits)
  from failure first second third fourth types split single show ?thesis
    by blast
qed

theorem resolver_order_witness:
  "splitApplies example_token
   \<and> splitStrategy (responses example_db) example_token = Inr (Some (example_support, example_oppose))
   \<and> findPairedResponses (responses example_db) example_token = Inr (example_support, example_oppose)
   \<and> splitApplies ''a_b''
   \<and> splitStrategy (responses example_db) ''a_b'' = Inl CastError
   \<and> pairIdStrategy (responses example_db) ''a_b'' = Inl CastError
   \<and> counterpartStrategy (responses example_db) ''a_b'' = Inl CastError
   \<and> findPairedResponses (responses example_db) ''a_b'' = Inl (PairNotFound ''a_b'')
   \<and> recentSessionStrategy crowded_responses = Inr (Some (second_support, example_oppose))
   \<and> agentType second_support = Support \<and> agentType example_oppose = Oppose"
proof -
  have a: "splitApplies example_token"
    "splitStrategy (responses example_db) example_token = Inr (Some (example_support, example_oppose))"
    by (simp_all add: resolver_defs example_defs)
  have b: "splitApplies ''a_b''"
    "splitStrategy (responses example_db) ''a_b'' = Inl CastError"
    "pairIdStrategy (responses example_db) ''a_b'' = Inl CastError"
    "counterpartStrategy (responses example_db) ''a_b'' = Inl CastError"
    "findPairedResponses (responses example_db) ''a_b'' = Inl (PairNotFound ''a_b'')"
    by (simp_all add: resolver_defs example_defs)
  from resolver_order [of "responses example_db" example_token "PairNotFound []"
      "(example_support, example_oppose)" example_support example_oppose]
    resolver_order [of "responses example_db" "''a_b''" "PairNotFound ''a_b''"
      "(example_support, example_oppose)" example_support example_oppose]
    resolver_order [of crowded_responses legacy_token "PairNotFound []"
      "(second_support, example_oppose)" second_support example_oppose]
    a b crowded_strategy
  show ?thesis by simp
qed

text \<open>
  C4 as stated fails: a split-form token that names two \<open>support\<close> responses
  resolves to that pair, with a \<open>support\<close> response in the place of the \<open>oppose\<close> one.
\<close>

theorem resolver_order_counterexample:
  "findPairedResponses [example_support, other_support] two_supports_token
     = Inr (example_support, other_support)
   \<and> agentType example_support = Support \<and> agentType other_support = Support"
  by (simp add: resolver_defs crowd_defs)

section \<open>Pending pairs\<close>

lemma groupByPairId_groups:
  assumes "distinct (map fst acc)"
  shows "distinct (map fst (groupByPairId acc xs))
       \<and> (\<forall>k. group_of (groupByPairId acc xs) k
                = group_of acc k @ filter (\<lambda>r. synthesisPairId r = Some k) xs)"
  using assms
proof (induction xs arbitrary: acc)
  case Nil
  then show ?case by simp
next
  case (Cons r xs)
  show ?case
  proof (cases "synthesisPairId r")
    case None
    with Cons show ?thesis by simp
  next
    case (Some k)
    from Cons.IH [OF push_key_distinct [OF Cons.prems], of k r] Some
    show ?thesis
      by (auto simp: push_key_map_of group_of_def)
  qed
qed

lemma insert_row_set: "set (insert_row p xs) = insert p (set xs)"
  by (induction xs) auto

lemma sorted_rows_set: "set (foldr insert_row xs []) = set xs"
  by (induction xs) (auto simp: insert_row_set)

lemma projectGroup_key: "x \<in> set (projectGroup kg) \<Longrightarrow> pairId x = fst kg"
  by (cases kg rule: projectGroup.cases) auto

lemma pending_filter:
  "filter (\<lambda>r. synthesisPairId r = Some k) (pendingWithPairId rs)
     = filter (\<lambda>r. synthesisPairId r = Some k \<and> synthesisStatus r = Pending) rs"
  by (induction rs) (auto simp: pendingWithPairId_def)

lemma pending_row_group:
  assumes "x \<in> set (pendingPairRows rs)"
  shows "length (filter (\<lambda>r. synthesisPairId r = Some (pairId x) \<and> synthesisStatus r = Pending) rs) = 2"
proof -
  let ?G = "groupByPairId [] (pendingWithPairId rs)"
  from assms obtain kg where kg: "kg \<in> set ?G" "length (snd kg) = 2" "x \<in> set (projectGroup kg)"
    by (auto simp: pendingPairRows_def sorted_rows_set)
  from groupByPairId_groups [of "[]" "pendingWithPairId rs"]
  have dist: "distinct (map fst ?G)"
    and groups: "\<And>k. group_of ?G k = filter (\<lambda>r. synthesisPairId r = Some k) (pendingWithPairId rs)"
    by (simp_all add: group_of_def)
  from kg(1) have "(fst kg, snd kg) \<in> set ?G" by simp
  from group_member [OF dist this] groups
  have "snd kg = filter (\<lambda>r. synthesisPairId r = Some (fst kg)) (pendingWithPairId rs)"
    by simp
  with kg(2) projectGroup_key [OF kg(3)] show ?thesis
    by (simp add: pending_filter)
qed

text \<open>
  C8, as amended. Every pair that \<open>findPairsForSynthesis\<close> returns stands for a
  group of exactly two pending responses: the responses with status \<open>pending\<close> that
  share its pairing key are two, \<open>a\<close> and \<open>b\<close>. Responses of another status that
  share the key are not counted. A pairing key whose group of pending responses has
  one member, or three or more, is not in the returned list. The list is no longer
  than the limit, which is 20 when none is given or when it is 0.
\<close>

theorem pending_pairs_exact:
  assumes "findPairsForSynthesis st q = Inr ps"
  shows "(x \<in> set ps \<longrightarrow>
            readyForSynthesis x
            \<and> (\<exists>a b. filter (\<lambda>r. synthesisPairId r = Some (sum_pairId x)
                                \<and> synthesisStatus r = Pending) (responses st) = [a, b]))
       \<and> (length (filter (\<lambda>r. synthesisPairId r = Some k \<and> synthesisStatus r = Pending)
                     (responses st)) \<noteq> 2 \<longrightarrow> k \<notin> sum_pairId ` set ps)
       \<and> int (length ps) \<le> (case q of None \<Rightarrow> 20 | Some n \<Rightarrow> if n = 0 then 20 else n)"
proof -
  let ?limit = "case q of None \<Rightarrow> 20 | Some n \<Rightarrow> if n = 0 then 20 else n"
  let ?rows = "take (nat ?limit) (pendingPairRows (responses st))"
  from assms have lim: "0 \<le> ?limit"
    and ps: "ps = map (\<lambda>pair. \<lparr>sum_pairId = pairId pair, sum_sessionId = row_sessionId pair,
                                 sum_subject = row_subject pair, sum_createdAt = row_createdAt pair,
                                 readyForSynthesis = True\<rparr>) ?rows"
    by (auto simp: findPairsForSynthesis_def Let_def split: if_splits)
  have two: "length (filter (\<lambda>r. synthesisPairId r = Some (sum_pairId y) \<and> synthesisStatus r = Pending)
                 (responses st)) = 2 \<and> readyForSynthesis y" if "y \<in> set ps" for y
  proof -
    from that ps obtain row where "row \<in> set ?rows" "sum_pairId y = pairId row" "readyForSynthesis y"
      by auto
    moreover from this(1) have "row \<in> set (pendingPairRows (responses st))"
      by (rule in_set_takeD)
    ultimately show ?thesis using pending_row_group by simp
  qed
  have members: "x \<in> set ps \<longrightarrow>
            readyForSynthesis x
            \<and> (\<exists>a b. filter (\<lambda>r. synthesisPairId r = Some (sum_pairId x)
                                \<and> synthesisStatus r = Pending) (responses st) = [a, b])"
  proof
    assume "x \<in> set ps"
    from two [OF this] show "readyForSynthesis x
            \<and> (\<exists>a b. filter (\<lambda>r. synthesisPairId r = Some (sum_pairId x)
                                \<and> synthesisStatus r = Pending) (responses st) = [a, b])"
      by (auto simp: length_Suc_conv numeral_2_eq_2)
  qed
  have excluded: "length (filter (\<lambda>r. synthesisPairId r = Some k \<and> synthesisStatus r = Pending)
                     (responses st)) \<noteq> 2 \<longrightarrow> k \<notin> sum_pairId ` set ps"
    using two by auto
  have "length ps \<le> nat ?limit" using ps by simp
  with lim have "int (length ps) \<le> ?limit" by linarith
  with members excluded show ?thesis by blast
qed

lemma keyed_pairs:
  "findPairsForSynthesis keyed_db (Some 10)
     = Inr [\<lparr>sum_pairId = shared_key, sum_sessionId = ''s3'', sum_subject = ''topic'',
             sum_createdAt = 6, readyForSynthesis = True\<rparr>]"
  by (simp add: findPairsForSynthesis_def pendingPairRows_def pendingWithPairId_def
      keyed_db_def keyed_def shared_key_def)

theorem pending_pairs_exact_witness:
  "findPairsForSynthesis keyed_db (Some 10)
     = Inr [\<lparr>sum_pairId = shared_key, sum_sessionId = ''s3'', sum_subject = ''topic'',
             sum_createdAt = 6, readyForSynthesis = True\<rparr>]
   \<and> (\<exists>a b. filter (\<lambda>r. synthesisPairId r = Some shared_key \<and> synthesisStatus r = Pending)
               (responses keyed_db) = [a, b])
   \<and> length (filter (\<lambda>r. synthesisPairId r = Some ''cccccccccccccccccccccc03''
                          \<and> synthesisStatus r = Pending) (responses keyed_db)) = 3
   \<and> ''cccccccccccccccccccccc03''
       \<notin> sum_pairId ` set [\<lparr>sum_pairId = shared_key, sum_sessionId = ''s3'', sum_subject = ''topic'',
                              sum_createdAt = 6, readyForSynthesis = True\<rparr>]"
proof -
  have three: "length (filter (\<lambda>r. synthesisPairId r = Some ''cccccccccccccccccccccc03''
                          \<and> synthesisStatus r = Pending) (responses keyed_db)) = 3"
    by (simp add: keyed_db_def keyed_def shared_key_def)
  from pending_pairs_exact [OF keyed_pairs,
      of "\<lparr>sum_pairId = shared_key, sum_sessionId = ''s3'', sum_subject = ''topic'',
             sum_createdAt = 6, readyForSynthesis = True\<rparr>" "''cccccccccccccccccccccc03''"]
    keyed_pairs three
  show ?thesis by simp
qed

text \<open>
  C8 as stated fails: three responses share one pairing key, two of them
  \<open>pending\<close> and one \<open>synthesized\<close>, and the key is returned, although the
  group of the responses that share it has three members.
\<close>

theorem pending_pairs_exact_counterexample:
  "findPairsForSynthesis three_share_db (Some 10)
     = Inr [\<lparr>sum_pairId = shared_key, sum_sessionId = ''s3'', sum_subject = ''topic'',
             sum_createdAt = 6, readyForSynthesis = True\<rparr>]
   \<and> length (filter (\<lambda>r. synthesisPairId r = Some shared_key) (responses three_share_db)) = 3
   \<and> length (filter (\<lambda>r. synthesisPairId r = Some shared_key \<and> synthesisStatus r = Pending)
        (responses three_share_db)) = 2"
  by (simp add: findPairsForSynthesis_def pendingPairRows_def pendingWithPairId_def
      three_share_db_def keyed_def shared_key_def)

section \<open>Linking a saved pair\<close>

lemma find_none: "\<forall>x\<in>set xs. \<not> P x \<Longrightarrow> find P xs = None"
  by (induction xs) auto

lemma updateById_absent: "\<forall>x\<in>set xs. rid x \<noteq> rid d \<Longrightarrow> updateById d xs = xs"
  by (induction xs) (auto simp: updateById_def)

lemma updateById_append: "updateById d (xs @ ys) = updateById d xs @ updateById d ys"
  by (simp add: updateById_def)

text \<open>
  C10. When \<open>saveBothGeminiResponses\<close> succeeds, the \<open>support\<close> response it returns
  and stores carries the id of the \<open>oppose\<close> response as its \<open>synthesisPairId\<close>, and
  the \<open>oppose\<close> response carries the id of the \<open>support\<close> response. The two ids
  differ, so the two \<open>synthesisPairId\<close> values differ: no pairing key is carried by
  both members of the pair.
\<close>

theorem saved_pair_cross_linked:
  assumes "saveBothGeminiResponses rs supportId opposeId now1 now2 sid eid
             supportReasoning supportCitations opposeReasoning opposeCitations subj
           = Inr ((s, p), rs')"
  shows "rid s = supportId \<and> rid p = opposeId
       \<and> agentType s = Support \<and> agentType p = Oppose
       \<and> synthesisPairId s = Some (rid p) \<and> synthesisPairId p = Some (rid s)
       \<and> synthesisPairId s \<noteq> synthesisPairId p
       \<and> (\<forall>k. length (filter (\<lambda>r. synthesisPairId r = Some k) [s, p]) \<le> 1)
       \<and> find (\<lambda>r. rid r = supportId) rs' = Some s
       \<and> find (\<lambda>r. rid r = opposeId) rs' = Some p"
proof -
  let ?s0 = "\<lparr>rid = supportId, sessionId = sid, evidenceId = eid, agentType = Support,
               reasoning = supportReasoning, subject = subj, citations = supportCitations,
               synthesisStatus = Pending, synthesisPairId = None, createdAt = now1\<rparr>"
  let ?p0 = "\<lparr>rid = opposeId, sessionId = sid, evidenceId = eid, agentType = Oppose,
               reasoning = opposeReasoning, subject = subj, citations = opposeCitations,
               synthesisStatus = Pending, synthesisPairId = None, createdAt = now2\<rparr>"
  from assms have new1: "\<not> list_ex (\<lambda>r. rid r = supportId) rs"
    and new2: "\<not> list_ex (\<lambda>r. rid r = opposeId) (rs @ [?s0])"
    and s: "s = ?s0\<lparr>synthesisPairId := Some opposeId\<rparr>"
    and p: "p = ?p0\<lparr>synthesisPairId := Some supportId\<rparr>"
    and rs': "rs' = updateById p (updateById s (rs @ [?s0, ?p0]))"
    by (auto simp: saveBothGeminiResponses_def saveGeminiResponse_def Let_def
        split: if_splits)
  from new1 new2 have old: "\<forall>x\<in>set rs. rid x \<noteq> supportId \<and> rid x \<noteq> opposeId"
    and diff: "supportId \<noteq> opposeId"
    by (auto simp: list_ex_iff)
  have ids: "rid s = supportId" "rid p = opposeId" "rid ?s0 = supportId" "rid ?p0 = opposeId"
    using s p by simp_all
  have "updateById s (rs @ [?s0, ?p0]) = rs @ [s, ?p0]"
    using old ids diff updateById_absent [of rs s]
    unfolding updateById_append by (simp add: updateById_def)
  moreover have "updateById p (rs @ [s, ?p0]) = rs @ [s, p]"
    using old ids diff updateById_absent [of rs p]
    unfolding updateById_append by (simp add: updateById_def)
  ultimately have stored: "rs' = rs @ [s, p]"
    using rs' by simp
  from old have "find (\<lambda>r. rid r = supportId) rs = None" "find (\<lambda>r. rid r = opposeId) rs = None"
    by (simp_all add: find_none)
  with stored ids diff have "find (\<lambda>r. rid r = supportId) rs' = Some s"
    and "find (\<lambda>r. rid r = opposeId) rs' = Some p"
    by (simp_all add: find_app)
  with s p diff show ?thesis by auto
qed

theorem saved_pair_cross_linked_witness:
  "saveBothGeminiResponses [] ''aaaaaaaaaaaaaaaaaaaaaaa1'' ''aaaaaaaaaaaaaaaaaaaaaaa2'' 1 2
       ''s1'' ''e1'' ''yes'' [] ''no'' [] ''topic''
     = Inr ((example_support, example_oppose), [example_support, example_oppose])
   \<and> synthesisPairId example_support = Some (rid example_oppose)
   \<and> synthesisPairId example_oppose = Some (rid example_support)
   \<and> synthesisPairId example_support \<noteq> synthesisPairId example_oppose"
proof -
  have saved: "saveBothGeminiResponses [] ''aaaaaaaaaaaaaaaaaaaaaaa1'' ''aaaaaaaaaaaaaaaaaaaaaaa2'' 1 2
       ''s1'' ''e1'' ''yes'' [] ''no'' [] ''topic''
     = Inr ((example_support, example_oppose), [example_support, example_oppose])"
    by (simp add: saveBothGeminiResponses_def saveGeminiResponse_def updateById_def Let_def
        example_support_def example_oppose_def)
  from saved_pair_cross_linked [OF saved] saved show ?thesis by simp
qed

end
